theory Spec2Isabelle
  imports Main "HOL-Library.Sublist"
begin

text \<open>
  A model of the control plane of pact-go: the RPC daemon of package \<open>daemon\<close>
  (\<open>VerifyProvider\<close>, \<open>StopServer\<close>, \<open>StopDaemon\<close>, \<open>StartDaemon\<close>, \<open>Shutdown\<close>) and
  the session of package \<open>dsl\<close> (\<open>Setup\<close>, \<open>Verify\<close>, and the HTTP handler that
  \<open>VerifyProducer\<close> registers). Each Go function is a HOL function of the same name. What
  the Go code does to the world outside it (logging, the service managers, the verifier
  process, the mock service) is recorded as a history of events that the function
  extends, and what the world answers is a parameter of the function.
\<close>

section \<open>Common Go values\<close>

text \<open>
  A Go \<open>error\<close> value is modelled by the text its \<open>Error()\<close> method returns; a nil
  error is \<open>None\<close> of \<open>error option\<close>. A byte slice and a Go string are both a
  \<open>string\<close> (a list of bytes).
\<close>

datatype error = NewError (Error: string)

text \<open>\<open>fmt.Sprintf("%d", n)\<close>: the decimal rendering of an integer.\<close>

fun digits :: "nat \<Rightarrow> string" where
  "digits n =
     (if n < 10 then [''0123456789'' ! n]
      else digits (n div 10) @ [''0123456789'' ! (n mod 10)])"

declare digits.simps [simp del]

definition itoa :: "int \<Rightarrow> string" where
  "itoa i = (if i < 0 then CHR ''-'' # digits (nat (- i)) else digits (nat i))"

definition newline :: string where
  "newline = [CHR 0x0A]"

section \<open>Package daemon\<close>

subsection \<open>Data\<close>

text \<open>
  \<open>os.Interrupt\<close> and \<open>os.Kill\<close>, with the text of their \<open>String()\<close> method.
\<close>

datatype Signal = Interrupt | Kill

fun Signal_String :: "Signal \<Rightarrow> string" where
  "Signal_String Interrupt = ''interrupt''"
| "Signal_String Kill = ''killed''"

text \<open>
  The entries of the map a manager's \<open>List()\<close> returns. Shutdown reads
  \<open>s.Process.Pid\<close> of an entry; an entry of the map may be a nil pointer (\<open>None\<close>).
  The managers track launched processes only (spec, section 3: the process identifier
  is assigned at launch), so a tracked command carries its process.
\<close>

record Process =
  Pid :: int

record Cmd =
  Process :: Process

text \<open>\<open>types.MockServer\<close>, with the fields the daemon and the session use.\<close>

record MockServer =
  Pid :: int
  Port :: int
  Status :: int
  Args :: "string list"

text \<open>\<open>types.VerifyRequest\<close>, with the fields the callers in this repository set.\<close>

record VerifyRequest =
  ProviderBaseURL :: string
  PactURLs :: "string list"
  ProviderStatesSetupURL :: string
  BrokerURL :: string
  Args :: "string list"

text \<open>
  The \<open>Daemon\<close> struct. A \<open>Service\<close> is an interface value: \<open>'m\<close> is the type of
  the references to managers. The channel \<open>signalChan\<close> is made with capacity 1; its
  buffer is a list of at most one signal.
\<close>

record 'm Daemon =
  pactMockSvcManager :: 'm
  verificationSvcManager :: 'm
  messageSvcManager :: 'm
  signalChan :: "Signal list"

datatype stream = Stdout | Stderr

text \<open>
  Every call that leaves the daemon's own code is an event, and a run of a daemon
  operation appends its events, in program order, to the history it was started with.
  An event carries the arguments of the call and what the call returned. The calls on a
  manager name the manager reference they were made through.
\<close>

datatype 'm event =
    EvLog string
  | EvValidate "error option"
  | EvNewService 'm "string list"
  | EvCommand
  | EvStdoutPipe "error option"
  | EvStderrPipe "error option"
  | EvStart "error option"
  | EvReadAll stream string "error option"
  | EvWait "error option"
  | EvDecode "error option"
  | EvList 'm "(int \<times> Cmd option) list"
  | EvStop 'm int bool "error option"
  | EvRegister
  | EvListen string string "error option"
  | EvServe
  | EvNotify "Signal list"
  | EvReceive Signal

text \<open>
  The collaborators of the daemon are not part of its code: the service managers (the
  \<open>Service\<close> interface), the request's \<open>Validate\<close> method, \<open>os/exec\<close>,
  \<open>ioutil.ReadAll\<close>, \<open>encoding/json\<close> and \<open>net.Listen\<close>. Each is a parameter: a
  function of the call's arguments and of the history of events before the call, so
  that a collaborator may answer differently each time it is called.

  \<^item> \<open>request_Validate\<close> returns the request as the method leaves it (it may fill in
    \<open>Args\<close>) and the error.
  \<^item> \<open>json_Decode stdOut reply\<close> is \<open>Decode(&reply)\<close> on a decoder reading \<open>stdOut\<close>:
    the reply as written by the decoder, and the error.
  \<^item> \<open>svc_List\<close> returns the entries of the map in the order the \<open>range\<close> loop visits
    them, each with its key.
\<close>

record ('m, 'r) Env =
  request_Validate :: "VerifyRequest \<Rightarrow> VerifyRequest \<times> error option"
  cmd_StdoutPipe :: "'m event list \<Rightarrow> error option"
  cmd_StderrPipe :: "'m event list \<Rightarrow> error option"
  cmd_Start :: "'m event list \<Rightarrow> error option"
  ioutil_ReadAll :: "stream \<Rightarrow> 'm event list \<Rightarrow> string \<times> error option"
  cmd_Wait :: "'m event list \<Rightarrow> error option"
  json_Decode :: "string \<Rightarrow> 'r \<Rightarrow> 'r \<times> error option"
  svc_List :: "'m \<Rightarrow> 'm event list \<Rightarrow> (int \<times> Cmd option) list"
  svc_Stop :: "'m \<Rightarrow> int \<Rightarrow> 'm event list \<Rightarrow> bool \<times> error option"
  net_Listen :: "string \<Rightarrow> string \<Rightarrow> 'm event list \<Rightarrow> error option"

subsection \<open>VerifyProvider\<close>

text \<open>
  The error built by
  \<open>fmt.Errorf("error verifying provider: %s\n\nSTDERR:\n%s\n\nSTDOUT:\n%s", err, stdErr, stdOut)\<close>.
\<close>

definition verifyError :: "error \<Rightarrow> string \<Rightarrow> string \<Rightarrow> error" where
  "verifyError err stdErr stdOut =
     NewError (''error verifying provider: '' @ Error err @ newline @ newline
       @ ''STDERR:'' @ newline @ stdErr @ newline @ newline
       @ ''STDOUT:'' @ newline @ stdOut)"

text \<open>
  \<open>VerifyProvider env d request reply tr\<close> returns the reply as the call leaves it, the
  error returned to the RPC layer, and the history after the call. The receiver is
  passed by value: the call cannot change the \<open>Daemon\<close> struct, and it reaches the
  managers and the verifier process through the events only.
\<close>

definition VerifyProvider ::
  "('m, 'r) Env \<Rightarrow> 'm Daemon \<Rightarrow> VerifyRequest \<Rightarrow> 'r \<Rightarrow> 'm event list
     \<Rightarrow> 'r \<times> error option \<times> 'm event list" where
  "VerifyProvider env d request reply tr =
     (let tr = tr @ [EvLog ''[DEBUG] daemon - verifying provider''];
          (request, err) = request_Validate env request;
          tr = tr @ [EvValidate err]
      in if err \<noteq> None then (reply, err, tr) else
      let tr = tr @ [EvNewService (verificationSvcManager d) (VerifyRequest.Args request)];
          tr = tr @ [EvCommand];
          err = cmd_StdoutPipe env tr;
          tr = tr @ [EvStdoutPipe err]
      in if err \<noteq> None then (reply, err, tr) else
      let err = cmd_StderrPipe env tr;
          tr = tr @ [EvStderrPipe err]
      in if err \<noteq> None then (reply, err, tr) else
      let err = cmd_Start env tr;
          tr = tr @ [EvStart err]
      in if err \<noteq> None then (reply, err, tr) else
      let (stdOut, err) = ioutil_ReadAll env Stdout tr;
          tr = tr @ [EvReadAll Stdout stdOut err]
      in if err \<noteq> None then (reply, err, tr) else
      let (stdErr, err) = ioutil_ReadAll env Stderr tr;
          tr = tr @ [EvReadAll Stderr stdErr err]
      in if err \<noteq> None then (reply, err, tr) else
      let err = cmd_Wait env tr;
          tr = tr @ [EvWait err];
          (reply, dErr) = json_Decode env stdOut reply;
          tr = tr @ [EvDecode dErr]
      in case dErr of
           None \<Rightarrow> (reply, None, tr)
         | Some de \<Rightarrow>
             (let err = (case err of None \<Rightarrow> de | Some we \<Rightarrow> we)
              in (reply, Some (verifyError err stdErr stdOut), tr)))"


text \<open>The events that reach a service manager or the verifier process.\<close>

fun isExternal :: "'m event \<Rightarrow> bool" where
  "isExternal (EvLog s) = False"
| "isExternal (EvValidate e) = False"
| "isExternal (EvDecode e) = False"
| "isExternal _ = True"

subsection \<open>StopServer\<close>

definition StopServer ::
  "('m, 'r) Env \<Rightarrow> 'm Daemon \<Rightarrow> MockServer \<Rightarrow> MockServer \<Rightarrow> 'm event list
     \<Rightarrow> MockServer \<times> error option \<times> 'm event list" where
  "StopServer env d request reply tr =
     (let tr = tr @ [EvLog ''[DEBUG] daemon - stopping mock server''];
          (success, err) = svc_Stop env (pactMockSvcManager d) (MockServer.Pid request) tr;
          tr = tr @ [EvStop (pactMockSvcManager d) (MockServer.Pid request) success err];
          request = (if success = True \<and> err = None
                     then request\<lparr>Status := 0\<rparr>
                     else request\<lparr>Status := 1\<rparr>);
          reply = request
      in (reply, None, tr))"

subsection \<open>Shutdown, StopDaemon and StartDaemon\<close>

text \<open>
  The loop of \<open>Shutdown\<close> over the entries of the listed map, stopping through the
  manager \<open>m\<close>. The source drops what \<open>Stop\<close> returns.
\<close>

fun stopEach ::
  "('m, 'r) Env \<Rightarrow> 'm \<Rightarrow> (int \<times> Cmd option) list \<Rightarrow> 'm event list \<Rightarrow> 'm event list" where
  "stopEach env m [] tr = tr"
| "stopEach env m ((port, s) # rest) tr =
     (case s of
        None \<Rightarrow> stopEach env m rest tr
      | Some c \<Rightarrow>
          (let (success, err) = svc_Stop env m (Process.Pid (Process c)) tr
           in stopEach env m rest (tr @ [EvStop m (Process.Pid (Process c)) success err])))"

definition Shutdown :: "('m, 'r) Env \<Rightarrow> 'm Daemon \<Rightarrow> 'm event list \<Rightarrow> 'm event list" where
  "Shutdown env d tr =
     (let tr = tr @ [EvLog ''[DEBUG] daemon - shutdown''];
          procs = svc_List env (verificationSvcManager d) tr;
          tr = tr @ [EvList (verificationSvcManager d) procs]
      in stopEach env (pactMockSvcManager d) procs tr)"

text \<open>The stop calls of a history: the manager each went through, and the pid.\<close>

fun stopsOf :: "'m event list \<Rightarrow> ('m \<times> int) list" where
  "stopsOf [] = []"
| "stopsOf (EvStop m pid success err # tr) = (m, pid) # stopsOf tr"
| "stopsOf (e # tr) = stopsOf tr"

text \<open>The pids of the non-nil entries of a listed map, in the order of the loop.\<close>

fun pidsOf :: "(int \<times> Cmd option) list \<Rightarrow> int list" where
  "pidsOf [] = []"
| "pidsOf ((port, None) # rest) = pidsOf rest"
| "pidsOf ((port, Some c) # rest) = Process.Pid (Process c) # pidsOf rest"

text \<open>
  A send on the channel: it completes when the buffer (capacity 1) has room, and blocks
  otherwise (\<open>None\<close>). \<open>signal.Notify\<close> makes the runtime deliver the signals of the
  operating system to the channel without blocking: a signal that finds the buffer full
  is dropped.
\<close>

definition chan_send :: "Signal \<Rightarrow> 'm Daemon \<Rightarrow> 'm Daemon option" where
  "chan_send s d =
     (if length (signalChan d) < 1 then Some (d\<lparr>signalChan := signalChan d @ [s]\<rparr>) else None)"

definition os_deliver :: "Signal \<Rightarrow> 'm Daemon \<Rightarrow> 'm Daemon" where
  "os_deliver s d = (case chan_send s d of Some d' \<Rightarrow> d' | None \<Rightarrow> d)"

text \<open>
  \<open>StopDaemon\<close>: the daemon with the interrupt in its channel, the error returned and
  the history; \<open>None\<close> when the send blocks.
\<close>

definition StopDaemon ::
  "'m Daemon \<Rightarrow> string \<Rightarrow> 'm event list \<Rightarrow> ('m Daemon \<times> error option \<times> 'm event list) option" where
  "StopDaemon d request tr =
     (let tr = tr @ [EvLog ''[DEBUG] daemon - stop daemon'']
      in case chan_send Interrupt d of
           None \<Rightarrow> None
         | Some d' \<Rightarrow> Some (d', None, tr))"

text \<open>
  \<open>StartDaemon\<close> ends in one of three ways: \<open>net.Listen\<close> fails and the function
  panics; no signal ever arrives and the receive blocks for ever; or a signal is
  received and \<open>Shutdown\<close> runs. The daemon \<open>d\<close> carries the channel as the receive finds
  it: what \<open>StopDaemon\<close> or the operating system has put there.
\<close>

datatype 'm started = Panicked error "'m event list" | Blocked "'m event list" | Finished "'m event list"

definition StartDaemon ::
  "('m, 'r) Env \<Rightarrow> 'm Daemon \<Rightarrow> int \<Rightarrow> string \<Rightarrow> string \<Rightarrow> 'm event list \<Rightarrow> 'm started" where
  "StartDaemon env d port network address tr =
     (let tr = tr @ [EvLog (''[INFO] daemon - starting daemon on network: '' @ network
                       @ '' address: '' @ address @ '' port: '' @ itoa port)];
          tr = tr @ [EvRegister];
          addr = address @ '':'' @ itoa port;
          err = net_Listen env network addr tr;
          tr = tr @ [EvListen network addr err]
      in case err of
           Some e \<Rightarrow> Panicked e tr
         | None \<Rightarrow>
             (let tr = tr @ [EvServe];
                  tr = tr @ [EvNotify [Interrupt, Kill]]
              in case signalChan d of
                   [] \<Rightarrow> Blocked tr
                 | s # _ \<Rightarrow>
                     (let tr = tr @ [EvReceive s];
                          tr = tr @ [EvLog (''[INFO] daemon - received signal: ''
                                       @ Signal_String s @ '' , shutting down all services'')]
                      in Finished (Shutdown env d tr))))"

section \<open>Package dsl: the session\<close>

subsection \<open>Data\<close>

text \<open>\<open>PactClient\<close>, the RPC client, as \<open>Setup\<close> builds it.\<close>

record PactClient =
  Port :: int
  Network :: string
  Address :: string

text \<open>
  \<open>logutils.LevelFilter\<close>, as \<open>setupLogging\<close> builds it; its writer is always
  \<open>os.Stderr\<close>.
\<close>

record LevelFilter =
  Levels :: "string list"
  MinLevel :: string

text \<open>\<open>MockService\<close>, the HTTP client of one mock service.\<close>

record MockService =
  BaseURL :: string
  Consumer :: string
  Provider :: string
  PactFileWriteMode :: string

text \<open>
  The \<open>Pact\<close> struct. A pointer field is an option (\<open>None\<close> is nil); \<open>'i\<close> is the
  type of interactions.
\<close>

record 'i Pact =
  Server :: "MockServer option"
  Port :: int
  pactClient :: "PactClient option"
  Consumer :: string
  Provider :: string
  Interactions :: "'i list"
  LogLevel :: string
  logFilter :: "LevelFilter option"
  LogDir :: string
  PactDir :: string
  PactFileWriteMode :: string
  SpecificationVersion :: int
  Host :: string
  Network :: string
  AllowedMockServerPorts :: string

text \<open>
  The calls that leave the session's own code, recorded in program order as for the
  daemon, each with its arguments and what it returned.
\<close>

datatype 'i call =
    Log_Print string
  | Log_SetOutput LevelFilter
  | Os_Getwd string
  | Utils_FindPortInRange string int "error option"
  | Utils_GetFreePort int "error option"
  | Client_StartServer PactClient "string list" int "MockServer option"
  | Mock_AddInteraction MockService 'i "error option"
  | Run_integrationTest "error option"
  | Mock_Verify MockService "error option"
  | Mock_DeleteInteractions MockService "error option"

text \<open>
  The collaborators of the session: the working directory, the path functions of
  \<open>path/filepath\<close>, \<open>fmt.Sprintf\<close> applied to a path as its format
  (\<open>fmt_Sprintf\<close>), the port probes of package \<open>utils\<close>, the RPC client's
  \<open>StartServer\<close> (it returns a pointer, \<open>None\<close> when nil) and the three requests
  of \<open>MockService\<close> that \<open>Verify\<close> sends. As for the daemon, each answers from its
  arguments and the history of calls before it.
\<close>

record 'i SessionEnv =
  os_Getwd :: "'i call list \<Rightarrow> string"
  filepath_Join :: "string \<Rightarrow> string \<Rightarrow> string"
  filepath_FromSlash :: "string \<Rightarrow> string"
  fmt_Sprintf :: "string \<Rightarrow> string"
  utils_FindPortInRange :: "string \<Rightarrow> 'i call list \<Rightarrow> int \<times> error option"
  utils_GetFreePort :: "'i call list \<Rightarrow> int \<times> error option"
  client_StartServer :: "PactClient \<Rightarrow> string list \<Rightarrow> int \<Rightarrow> 'i call list \<Rightarrow> MockServer option"
  mock_AddInteraction :: "MockService \<Rightarrow> 'i \<Rightarrow> 'i call list \<Rightarrow> error option"
  mock_Verify :: "MockService \<Rightarrow> 'i call list \<Rightarrow> error option"
  mock_DeleteInteractions :: "MockService \<Rightarrow> 'i call list \<Rightarrow> error option"

subsection \<open>Setup\<close>

definition setupLogging :: "'i Pact \<Rightarrow> 'i call list \<Rightarrow> 'i Pact \<times> 'i call list" where
  "setupLogging p tr =
     (let tr = tr @ [Log_Print (''[DEBUG] LogLevel'' @ LogLevel p)];
          (p, tr) =
            (if logFilter p = None then
               (let p = (if LogLevel p = '''' then p\<lparr>LogLevel := ''INFO''\<rparr> else p);
                    f = \<lparr>Levels = [''DEBUG'', ''WARN'', ''ERROR''], MinLevel = LogLevel p\<rparr>;
                    p = p\<lparr>logFilter := Some f\<rparr>;
                    tr = tr @ [Log_SetOutput f]
                in (p, tr))
             else (p, tr));
          tr = tr @ [Log_Print ''[DEBUG] pact setup logging'']
      in (p, tr))"

text \<open>The argument list \<open>Setup\<close> passes to \<open>StartServer\<close>.\<close>

definition mockServerArgs :: "'i SessionEnv \<Rightarrow> 'i Pact \<Rightarrow> string list" where
  "mockServerArgs env p =
     [''--pact-specification-version'',
      itoa (SpecificationVersion p),
      ''--pact-dir'',
      filepath_FromSlash env (PactDir p),
      ''--log'',
      filepath_FromSlash env (LogDir p @ ''/'' @ ''pact.log''),
      ''--consumer'',
      Pact.Consumer p,
      ''--provider'',
      Pact.Provider p]"

text \<open>
  The defaults that \<open>Setup\<close> fills in (the five \<open>if\<close> statements on \<open>Network\<close>,
  \<open>Host\<close>, \<open>LogDir\<close>, \<open>PactDir\<close> and \<open>SpecificationVersion\<close>); \<open>dir\<close> is the
  working directory.
\<close>

definition defaults :: "'i SessionEnv \<Rightarrow> string \<Rightarrow> 'i Pact \<Rightarrow> 'i Pact" where
  "defaults env dir p =
     (let p = (if Pact.Network p = '''' then p\<lparr>Pact.Network := ''tcp''\<rparr> else p);
          p = (if Host p = '''' then p\<lparr>Host := ''localhost''\<rparr> else p);
          p = (if LogDir p = ''''
               then p\<lparr>LogDir := fmt_Sprintf env (filepath_Join env dir ''logs'')\<rparr> else p);
          p = (if PactDir p = ''''
               then p\<lparr>PactDir := fmt_Sprintf env (filepath_Join env dir ''pacts'')\<rparr> else p);
          p = (if SpecificationVersion p = 0 then p\<lparr>SpecificationVersion := 2\<rparr> else p)
      in p)"

text \<open>
  The probe for a free port: the port, the error of the probe, and the history with the
  probe and, when it failed, the log line.
\<close>

definition findPort ::
  "'i SessionEnv \<Rightarrow> 'i Pact \<Rightarrow> 'i call list \<Rightarrow> int \<times> error option \<times> 'i call list" where
  "findPort env p tr =
     (let (port, perr) =
            (if AllowedMockServerPorts p \<noteq> ''''
             then utils_FindPortInRange env (AllowedMockServerPorts p) tr
             else utils_GetFreePort env tr);
          tr = tr @ [if AllowedMockServerPorts p \<noteq> ''''
                     then Utils_FindPortInRange (AllowedMockServerPorts p) port perr
                     else Utils_GetFreePort port perr];
          tr = (if perr \<noteq> None
                then tr @ [Log_Print ''[ERROR] unable to find free port, mockserver will fail to start'']
                else tr)
      in (port, perr, tr))"

text \<open>
  \<open>Setup env startMockServer p tr\<close> returns the session as the call leaves it (the
  pointer \<open>Setup\<close> returns is the receiver itself) and the history after the call.
  The function has no error result and no statement that can panic. Its body is, in the
  order of the source: the two log lines around \<open>setupLogging\<close>, the working directory,
  the \<open>defaults\<close>, the client (built when the session has none), the probe
  \<open>findPort\<close>, and the launch of the mock service.
\<close>

definition Setup ::
  "'i SessionEnv \<Rightarrow> bool \<Rightarrow> 'i Pact \<Rightarrow> 'i call list \<Rightarrow> 'i Pact \<times> 'i call list" where
  "Setup env startMockServer p tr =
     (let tr = tr @ [Log_Print ''[DEBUG] pact setup1''];
          (p, tr) = setupLogging p tr;
          tr = tr @ [Log_Print ''[DEBUG] pact setup2''];
          dir = os_Getwd env tr;
          tr = tr @ [Os_Getwd dir];
          p = defaults env dir p;
          client = (case pactClient p of
                      None \<Rightarrow> \<lparr>PactClient.Port = Pact.Port p, PactClient.Network = Pact.Network p,
                                 Address = Host p\<rparr>
                    | Some c \<Rightarrow> c);
          p = p\<lparr>pactClient := Some client\<rparr>;
          (port, perr, tr) = findPort env p tr
      in if Server p = None \<and> startMockServer then
           (let tr = tr @ [Log_Print (''[DEBUG] starting mock service on port: '' @ itoa port)];
                args = mockServerArgs env p;
                server = client_StartServer env client args port tr;
                tr = tr @ [Client_StartServer client args port server]
            in (p\<lparr>Server := server\<rparr>, tr))
         else (p, tr))"

text \<open>The calls of a history that start a mock service, and those that probe for a port.\<close>

fun isStartServer :: "'i call \<Rightarrow> bool" where
  "isStartServer (Client_StartServer c args port server) = True"
| "isStartServer _ = False"

fun isProbe :: "'i call \<Rightarrow> bool" where
  "isProbe (Utils_FindPortInRange ports port perr) = True"
| "isProbe (Utils_GetFreePort port perr) = True"
| "isProbe _ = False"

text \<open>
  The requests to the mock service and the run of the test function: the calls that
  \<open>Verify\<close> makes after \<open>Setup\<close>.
\<close>

fun isVerifyStep :: "'i call \<Rightarrow> bool" where
  "isVerifyStep (Mock_AddInteraction m i e) = True"
| "isVerifyStep (Run_integrationTest e) = True"
| "isVerifyStep (Mock_Verify m e) = True"
| "isVerifyStep (Mock_DeleteInteractions m e) = True"
| "isVerifyStep _ = False"

subsection \<open>Verify\<close>

text \<open>The loop of \<open>Verify\<close> that registers the interactions; it stops at the first error.\<close>

fun addInteractions ::
  "'i SessionEnv \<Rightarrow> MockService \<Rightarrow> 'i list \<Rightarrow> 'i call list \<Rightarrow> error option \<times> 'i call list" where
  "addInteractions env mockServer [] tr = (None, tr)"
| "addInteractions env mockServer (interaction # rest) tr =
     (let err = mock_AddInteraction env mockServer interaction tr;
          tr = tr @ [Mock_AddInteraction mockServer interaction err]
      in if err \<noteq> None then (err, tr) else addInteractions env mockServer rest tr)"

text \<open>
  A call of \<open>Verify\<close> returns an error value, or panics on the nil pointer when
  \<open>StartServer\<close> gave no server (\<open>p.Server.Port\<close>).
\<close>

datatype outcome = Returned "error option" | NilPointerPanic

text \<open>
  The test function is a closure of the caller; the session calls it for the error it
  returns, which like the answers of the collaborators may depend on the history.
\<close>

type_synonym 'i testFn = "'i call list \<Rightarrow> error option"

definition Verify ::
  "'i SessionEnv \<Rightarrow> 'i testFn \<Rightarrow> 'i Pact \<Rightarrow> 'i call list \<Rightarrow> outcome \<times> 'i Pact \<times> 'i call list" where
  "Verify env integrationTest p tr =
     (let (p, tr) = Setup env True p tr;
          tr = tr @ [Log_Print ''[DEBUG] pact verify'']
      in case Server p of
           None \<Rightarrow> (NilPointerPanic, p, tr)
         | Some server \<Rightarrow>
     (let mockServer = \<lparr>BaseURL = ''http://'' @ Host p @ '':'' @ itoa (MockServer.Port server),
                         MockService.Consumer = Pact.Consumer p,
                         MockService.Provider = Pact.Provider p,
                         MockService.PactFileWriteMode = ''''\<rparr>;
          (err, tr) = addInteractions env mockServer (Interactions p) tr
      in if err \<noteq> None then (Returned err, p, tr) else
      let err = integrationTest tr;
          tr = tr @ [Run_integrationTest err]
      in if err \<noteq> None then (Returned err, p, tr) else
      let err = mock_Verify env mockServer tr;
          tr = tr @ [Mock_Verify mockServer err]
      in if err \<noteq> None then (Returned err, p, tr) else
      let p = p\<lparr>Interactions := []\<rparr>;
          err = mock_DeleteInteractions env mockServer tr;
          tr = tr @ [Mock_DeleteInteractions mockServer err]
      in (Returned err, p, tr)))"

text \<open>
  The value of the local \<open>mockServer\<close> of \<open>Verify\<close>, for the session \<open>p\<close> as \<open>Setup\<close>
  leaves it and its server.
\<close>

definition mockServiceFor :: "'i Pact \<Rightarrow> MockServer \<Rightarrow> MockService" where
  "mockServiceFor p server =
     \<lparr>BaseURL = ''http://'' @ Host p @ '':'' @ itoa (MockServer.Port server),
      MockService.Consumer = Pact.Consumer p,
      MockService.Provider = Pact.Provider p,
      MockService.PactFileWriteMode = ''''\<rparr>"

text \<open>The calls that register the interactions \<open>xs\<close> with the mock service without error.\<close>

definition registered :: "MockService \<Rightarrow> 'i list \<Rightarrow> 'i call list" where
  "registered ms xs = map (\<lambda>i. Mock_AddInteraction ms i None) xs"

section \<open>Package dsl: the message-verification bridge\<close>

text \<open>
  \<open>types.Message\<close>: the handler reads its \<open>Description\<close> only. The zero value has the
  empty description.
\<close>

record Message =
  Description :: string

definition zeroMessage :: Message where
  "zeroMessage = \<lparr>Description = ''''\<rparr>"

text \<open>
  The \<open>http.ResponseWriter\<close> of one request: the header map, the status code once
  \<open>WriteHeader\<close> has been called, and the bytes written to the body.
\<close>

record ResponseWriter =
  Header :: "string \<rightharpoonup> string"
  statusCode :: "int option"
  written :: string

definition newResponseWriter :: ResponseWriter where
  "newResponseWriter = \<lparr>Header = Map.empty, statusCode = None, written = ''''\<rparr>"

definition Header_Set :: "string \<Rightarrow> string \<Rightarrow> ResponseWriter \<Rightarrow> ResponseWriter" where
  "Header_Set k v w = w\<lparr>Header := (Header w)(k \<mapsto> v)\<rparr>"

text \<open>Only the first \<open>WriteHeader\<close> of a response counts.\<close>

definition WriteHeader :: "int \<Rightarrow> ResponseWriter \<Rightarrow> ResponseWriter" where
  "WriteHeader code w = (if statusCode w = None then w\<lparr>statusCode := Some code\<rparr> else w)"

text \<open>\<open>Write\<close> sends the status 200 first when no status has been sent.\<close>

definition Write :: "string \<Rightarrow> ResponseWriter \<Rightarrow> ResponseWriter" where
  "Write b w = (let w = WriteHeader 200 w in w\<lparr>written := written w @ b\<rparr>)"

definition StatusOK :: int where
  "StatusOK = 200"

definition StatusBadRequest :: int where
  "StatusBadRequest = 400"

definition StatusNotFound :: int where
  "StatusNotFound = 404"

definition StatusServiceUnavailable :: int where
  "StatusServiceUnavailable = 503"

text \<open>
  Package \<open>encoding/json\<close>, for values \<open>'v\<close> returned by the handlers.
  \<open>json.Unmarshal(data, &v)\<close> checks the syntax of the whole input first and returns
  the syntax error without touching \<open>v\<close>; only valid JSON is decoded into \<open>v\<close>,
  which may still fail (a value of the wrong type) after fields have been written.
  \<open>json_checkValid\<close> is the syntax check and \<open>json_decode\<close> the decoding of valid
  input; \<open>json_Marshal\<close> returns the bytes and the error.
\<close>

record 'v JsonEnv =
  json_checkValid :: "string \<Rightarrow> error option"
  json_decode :: "string \<Rightarrow> Message \<Rightarrow> Message \<times> error option"
  json_Marshal :: "'v \<Rightarrow> string \<times> error option"

definition json_Unmarshal :: "'v JsonEnv \<Rightarrow> string \<Rightarrow> Message \<Rightarrow> Message \<times> error option" where
  "json_Unmarshal env data v =
     (case json_checkValid env data of
        Some e \<Rightarrow> (v, Some e)
      | None \<Rightarrow> json_decode env data v)"

text \<open>
  The function \<open>VerifyProducer\<close> registers on \<open>"/"\<close>. \<open>read\<close> is the result of
  \<open>ioutil.ReadAll(r.Body)\<close>; \<open>handlers\<close> is the caller's map from descriptions to
  message producers, each a function that returns a value and an error. The prints of
  the handler to the console are left out.
\<close>

definition bridgeHandler ::
  "'v JsonEnv \<Rightarrow> (string \<rightharpoonup> (unit \<Rightarrow> 'v \<times> error option)) \<Rightarrow> string \<times> error option
     \<Rightarrow> ResponseWriter \<Rightarrow> ResponseWriter" where
  "bridgeHandler env handlers read w =
     (let w = Header_Set ''Content-Type'' ''application/json; charset=utf-8'' w;
          message = zeroMessage;
          (body, err) = read
      in if err \<noteq> None then WriteHeader StatusBadRequest w else
      let (message, uerr) = json_Unmarshal env body message
      in case handlers (Description message) of
           None \<Rightarrow> WriteHeader StatusNotFound w
         | Some f \<Rightarrow>
     (let (res, handlerErr) = f ()
      in if handlerErr \<noteq> None then WriteHeader StatusServiceUnavailable w else
      let (resBody, errM) = json_Marshal env res
      in if errM \<noteq> None then WriteHeader StatusServiceUnavailable w else
      Write resBody (WriteHeader StatusOK w)))"

section \<open>Sample collaborators\<close>

text \<open>
  Concrete collaborators, on which the theorems below are instantiated. Managers are
  named by strings and a verification result is the list of the descriptions of its
  examples.
\<close>

definition sampleDaemon :: "string Daemon" where
  "sampleDaemon = \<lparr>pactMockSvcManager = ''mock'', verificationSvcManager = ''verifier'',
                    messageSvcManager = ''message'', signalChan = []\<rparr>"

text \<open>
  Modelled from the spec: \<open>types.VerifyRequest.Validate\<close> is not among the sources;
  the spec says of it that a request with zero contract locations and no broker URL
  fails validation. The sample accepts every other request and leaves it unchanged.
\<close>

definition sampleValidate :: "VerifyRequest \<Rightarrow> VerifyRequest \<times> error option" where
  "sampleValidate request =
     (if PactURLs request = [] \<and> BrokerURL request = ''''
      then (request, Some (NewError ''Pact URLs is mandatory''))
      else (request, None))"

definition emptyRequest :: VerifyRequest where
  "emptyRequest = \<lparr>ProviderBaseURL = ''http://localhost:8000'', PactURLs = [],
                    ProviderStatesSetupURL = '''', BrokerURL = '''', Args = []\<rparr>"

definition fileRequest :: VerifyRequest where
  "fileRequest = \<lparr>ProviderBaseURL = ''http://localhost:8000'',
                   PactURLs = [''pacts/billy-bobby.json''],
                   ProviderStatesSetupURL = '''', BrokerURL = '''',
                   Args = [''pacts/billy-bobby.json'']\<rparr>"

text \<open>The JSON document \<open>{"examples":[]}\<close>.\<close>

definition noExamples :: string where
  "noExamples = ''{'' @ [CHR 0x22] @ ''examples'' @ [CHR 0x22] @ '':[]}''"

definition sampleDecode :: "string \<Rightarrow> string list \<Rightarrow> string list \<times> error option" where
  "sampleDecode stdOut reply =
     (if stdOut = noExamples then ([], None)
      else if stdOut = ''{}'' then (reply, None)
      else (reply, Some (NewError ''invalid character'')))"

text \<open>
  Modelled from the spec: the managers behind the \<open>Service\<close> interface are not among
  the sources. The spec says that \<open>List\<close> returns the tracked processes keyed by
  their port, and that \<open>Stop\<close> reports failure, and does not crash, for an unknown
  identifier and for a second stop of the same identifier. Whichever sample manager is
  asked lists two running processes and one nil entry, and stops the pid 42 once; any
  other stop fails.
\<close>

definition sampleList :: "(int \<times> Cmd option) list" where
  "sampleList = [(8080, Some \<lparr>Process = \<lparr>Process.Pid = 101\<rparr>\<rparr>), (8081, None),
                 (8082, Some \<lparr>Process = \<lparr>Process.Pid = 102\<rparr>\<rparr>)]"

definition sampleStop :: "string \<Rightarrow> int \<Rightarrow> string event list \<Rightarrow> bool \<times> error option" where
  "sampleStop m pid tr =
     (if pid = 42 \<and> (m, pid) \<notin> set (stopsOf tr) then (True, None)
      else (False, Some (NewError ''process not found'')))"

text \<open>
  A verifier run scripted by what the reads of its two streams return and by its exit
  error; the pipes attach and the process starts.
\<close>

definition scripted ::
  "string \<times> error option \<Rightarrow> string \<times> error option \<Rightarrow> error option \<Rightarrow> (string, string list) Env" where
  "scripted outRead errRead exitErr =
     \<lparr>request_Validate = sampleValidate,
      cmd_StdoutPipe = (\<lambda>tr. None),
      cmd_StderrPipe = (\<lambda>tr. None),
      cmd_Start = (\<lambda>tr. None),
      ioutil_ReadAll = (\<lambda>s tr. case s of Stdout \<Rightarrow> outRead | Stderr \<Rightarrow> errRead),
      cmd_Wait = (\<lambda>tr. exitErr),
      json_Decode = sampleDecode,
      svc_List = (\<lambda>m tr. sampleList),
      svc_Stop = sampleStop,
      net_Listen = (\<lambda>network addr tr. None)\<rparr>"

text \<open>
  Modelled from the spec: the port probes of package \<open>utils\<close>, the RPC client's
  \<open>StartServer\<close> and the requests of \<open>MockService\<close> are not among the sources; the
  spec names them as collaborators of the session. The sample environment is scripted
  by the answer of the port probe and by the answers of the mock service to the
  registration of each interaction, to the verification and to the deletion.
  Interactions are named by strings. The daemon starts the mock service with the pid
  4711 on the probed port.
\<close>

definition scriptedSession ::
  "int \<times> error option \<Rightarrow> (string \<Rightarrow> error option) \<Rightarrow> error option \<Rightarrow> error option
     \<Rightarrow> string SessionEnv" where
  "scriptedSession probe add verify delete =
     \<lparr>os_Getwd = (\<lambda>tr. ''/work''),
      filepath_Join = (\<lambda>a b. a @ ''/'' @ b),
      filepath_FromSlash = (\<lambda>s. s),
      fmt_Sprintf = (\<lambda>s. s),
      utils_FindPortInRange = (\<lambda>ports tr. probe),
      utils_GetFreePort = (\<lambda>tr. probe),
      client_StartServer =
        (\<lambda>c args port tr. Some \<lparr>Pid = 4711, MockServer.Port = port, Status = -1, Args = []\<rparr>),
      mock_AddInteraction = (\<lambda>m i tr. add i),
      mock_Verify = (\<lambda>m tr. verify),
      mock_DeleteInteractions = (\<lambda>m tr. delete)\<rparr>"

definition samplePact :: "string Pact" where
  "samplePact =
     \<lparr>Server = None, Pact.Port = 6666, pactClient = None,
      Pact.Consumer = ''billy'', Pact.Provider = ''bobby'',
      Interactions = [''a request to login''],
      LogLevel = '''', logFilter = None, LogDir = '''', PactDir = '''',
      Pact.PactFileWriteMode = '''', SpecificationVersion = 0, Host = '''',
      Pact.Network = '''', AllowedMockServerPorts = ''''\<rparr>"


text \<open>
  The sample bridge: the JSON check accepts the bodies that start with a brace, the
  decoder reads the description \<open>a test message\<close> from any of them, and handler results
  are strings that marshal to themselves, except \<open>cyclic\<close>, which does not marshal.
\<close>

definition sampleJson :: "string JsonEnv" where
  "sampleJson =
     \<lparr>json_checkValid = (\<lambda>data. if take 1 data = ''{'' then None
                                 else Some (NewError ''invalid character'')),
      json_decode = (\<lambda>data v. (v\<lparr>Description := ''a test message''\<rparr>, None)),
      json_Marshal = (\<lambda>res. if res = ''cyclic'' then ('''', Some (NewError ''unsupported value''))
                              else (res, None))\<rparr>"

definition sampleHandlers :: "string \<rightharpoonup> (unit \<Rightarrow> string \<times> error option)" where
  "sampleHandlers =
     [''a test message'' \<mapsto> (\<lambda>u. (''{content}'', None))]"

section \<open>The daemon: properties\<close>

subsection \<open>Helper lemmas\<close>

lemma verifyError_has_cause: "sublist (Error c) (Error (verifyError c stdErr stdOut))"
  unfolding verifyError_def error.sel by (rule sublist_appendI)

lemma verifyError_has_stderr: "sublist stdErr (Error (verifyError c stdErr stdOut))"
proof -
  have "Error (verifyError c stdErr stdOut) =
          (''error verifying provider: '' @ Error c @ newline @ newline @ ''STDERR:'' @ newline)
          @ stdErr @ (newline @ newline @ ''STDOUT:'' @ newline @ stdOut)"
    by (simp add: verifyError_def)
  then show ?thesis
    by (simp only: sublist_appendI)
qed

lemma verifyError_has_stdout: "sublist stdOut (Error (verifyError c stdErr stdOut))"
proof -
  have "Error (verifyError c stdErr stdOut) =
          (''error verifying provider: '' @ Error c @ newline @ newline @ ''STDERR:'' @ newline
           @ stdErr @ newline @ newline @ ''STDOUT:'' @ newline) @ stdOut"
    by (simp add: verifyError_def)
  then show ?thesis
    by (simp only: sublist_append_leftI)
qed



lemma stopsOf_append: "stopsOf (xs @ ys) = stopsOf xs @ stopsOf ys"
  by (induction xs rule: stopsOf.induct) simp_all

lemma stopEach_trace:
  "\<exists>stops. stopEach env m procs tr = tr @ stops
      \<and> stopsOf stops = map (\<lambda>pid. (m, pid)) (pidsOf procs)
      \<and> length stops = length (pidsOf procs)"
proof (induction procs arbitrary: tr rule: pidsOf.induct)
  case 1
  show ?case by simp
next
  case (2 port rest)
  then show ?case by simp
next
  case (3 port c rest)
  obtain success err where r: "svc_Stop env m (Process.Pid (Process c)) tr = (success, err)"
    by (cases "svc_Stop env m (Process.Pid (Process c)) tr")
  from 3 [of "tr @ [EvStop m (Process.Pid (Process c)) success err]"]
  obtain stops where
    "stopEach env m rest (tr @ [EvStop m (Process.Pid (Process c)) success err])
       = (tr @ [EvStop m (Process.Pid (Process c)) success err]) @ stops"
    "stopsOf stops = map (\<lambda>pid. (m, pid)) (pidsOf rest)"
    "length stops = length (pidsOf rest)"
    by blast
  then show ?case
    using r by (intro exI [of _ "EvStop m (Process.Pid (Process c)) success err # stops"]) simp
qed

lemma Shutdown_trace:
  "\<exists>procs stops.
      Shutdown env d tr =
        tr @ [EvLog ''[DEBUG] daemon - shutdown'', EvList (verificationSvcManager d) procs] @ stops
      \<and> procs = svc_List env (verificationSvcManager d) (tr @ [EvLog ''[DEBUG] daemon - shutdown''])
      \<and> stopsOf stops = map (\<lambda>pid. (pactMockSvcManager d, pid)) (pidsOf procs)
      \<and> length stops = length (pidsOf procs)"
proof -
  let ?h = "tr @ [EvLog ''[DEBUG] daemon - shutdown'']"
  let ?procs = "svc_List env (verificationSvcManager d) ?h"
  from stopEach_trace [of env "pactMockSvcManager d" ?procs
      "?h @ [EvList (verificationSvcManager d) ?procs]"]
  obtain stops where
    "stopEach env (pactMockSvcManager d) ?procs (?h @ [EvList (verificationSvcManager d) ?procs])
       = (?h @ [EvList (verificationSvcManager d) ?procs]) @ stops"
    "stopsOf stops = map (\<lambda>pid. (pactMockSvcManager d, pid)) (pidsOf ?procs)"
    "length stops = length (pidsOf ?procs)"
    by blast
  then show ?thesis
    by (intro exI [of _ ?procs] exI [of _ stops]) (simp add: Shutdown_def Let_def)
qed

lemma trigger_channel:
  assumes "signalChan d = []"
      and "d' = os_deliver Interrupt d \<or> d' = os_deliver Kill d
           \<or> (\<exists>request tr0 e tr1. StopDaemon d request tr0 = Some (d', e, tr1))"
  shows "(signalChan d' = [Interrupt] \<or> signalChan d' = [Kill])
       \<and> pactMockSvcManager d' = pactMockSvcManager d
       \<and> verificationSvcManager d' = verificationSvcManager d
       \<and> messageSvcManager d' = messageSvcManager d"
  using assms
  by (auto simp: os_deliver_def chan_send_def StopDaemon_def Let_def split: option.splits if_splits)

subsection \<open>VerifyProvider: the result\<close>

text \<open>
  Claim C1, as amended. Take a call of \<open>VerifyProvider\<close> in which the stdout stream and
  then the stderr stream of the verifier process were read to their end without error
  (so the request passed validation, both pipes attached and the process started), and
  let the decoder map the captured stdout and the incoming reply to \<open>decoded\<close> and
  \<open>dErr\<close>. The reply is \<open>decoded\<close>. If decoding succeeded the call returns no error,
  whatever the wait on the process returned. If decoding failed with \<open>de\<close>, the call
  returns the error built from the wait error when there is one and from \<open>de\<close>
  otherwise, and the text of the returned error contains the text of that error, the
  whole captured stderr and the whole captured stdout.
\<close>

theorem VerifyProvider_result:
  assumes run: "VerifyProvider env d request reply tr = (reply', err', tr')"
      and out: "EvReadAll Stdout stdOut None \<in> set (drop (length tr) tr')"
      and errs: "EvReadAll Stderr stdErr None \<in> set (drop (length tr) tr')"
      and dec: "json_Decode env stdOut reply = (decoded, dErr)"
  shows "reply' = decoded
       \<and> (dErr = None \<longrightarrow> err' = None)
       \<and> (\<forall>de. dErr = Some de \<longrightarrow>
            (\<exists>werr cause. EvWait werr \<in> set (drop (length tr) tr')
               \<and> cause = (case werr of None \<Rightarrow> de | Some we \<Rightarrow> we)
               \<and> err' = Some (verifyError cause stdErr stdOut)
               \<and> sublist (Error cause) (Error (verifyError cause stdErr stdOut))
               \<and> sublist stdErr (Error (verifyError cause stdErr stdOut))
               \<and> sublist stdOut (Error (verifyError cause stdErr stdOut))))"
  using run out errs dec
  apply (simp add: VerifyProvider_def Let_def split: prod.splits if_splits option.splits)
  apply (clarsimp simp: verifyError_has_cause verifyError_has_stderr verifyError_has_stdout)+
  apply blast
  done

text \<open>
  The theorem on two runs of the sample verifier. In the first the process prints
  \<open>{"examples":[]}\<close> and exits with status 1: the call returns the decoded result and
  no error. In the second it prints \<open>boom\<close> and exits with status 1: the call returns
  the composite error.
\<close>

theorem VerifyProvider_result_witness:
  "VerifyProvider (scripted (noExamples, None) (''1 failure'', None) (Some (NewError ''exit status 1'')))
       sampleDaemon fileRequest [''stale''] []
     = ([], None,
        [EvLog ''[DEBUG] daemon - verifying provider'', EvValidate None,
         EvNewService ''verifier'' [''pacts/billy-bobby.json''], EvCommand,
         EvStdoutPipe None, EvStderrPipe None, EvStart None,
         EvReadAll Stdout noExamples None, EvReadAll Stderr ''1 failure'' None,
         EvWait (Some (NewError ''exit status 1'')), EvDecode None])
   \<and> fst (snd (VerifyProvider (scripted (''boom'', None) (''trace'', None) (Some (NewError ''exit status 1'')))
       sampleDaemon fileRequest [''stale''] []))
     = Some (verifyError (NewError ''exit status 1'') ''trace'' ''boom'')
   \<and> sublist ''exit status 1'' (Error (verifyError (NewError ''exit status 1'') ''trace'' ''boom''))
   \<and> sublist ''trace'' (Error (verifyError (NewError ''exit status 1'') ''trace'' ''boom''))
   \<and> sublist ''boom'' (Error (verifyError (NewError ''exit status 1'') ''trace'' ''boom''))"
proof -
  let ?env1 = "scripted (noExamples, None) (''1 failure'', None) (Some (NewError ''exit status 1''))"
  let ?env2 = "scripted (''boom'', None) (''trace'', None) (Some (NewError ''exit status 1''))"
  let ?R1 = "VerifyProvider ?env1 sampleDaemon fileRequest [''stale''] []"
  let ?R2 = "VerifyProvider ?env2 sampleDaemon fileRequest [''stale''] []"
  have run1: "?R1 = (fst ?R1, fst (snd ?R1), snd (snd ?R1))"
    by simp
  have run2: "?R2 = (fst ?R2, fst (snd ?R2), snd (snd ?R2))"
    by simp
  have tr1: "snd (snd ?R1) =
        [EvLog ''[DEBUG] daemon - verifying provider'', EvValidate None,
         EvNewService ''verifier'' [''pacts/billy-bobby.json''], EvCommand,
         EvStdoutPipe None, EvStderrPipe None, EvStart None,
         EvReadAll Stdout noExamples None, EvReadAll Stderr ''1 failure'' None,
         EvWait (Some (NewError ''exit status 1'')), EvDecode None]"
    by (simp add: VerifyProvider_def scripted_def sampleValidate_def fileRequest_def
          sampleDecode_def sampleDaemon_def)
  have tr2: "snd (snd ?R2) =
        [EvLog ''[DEBUG] daemon - verifying provider'', EvValidate None,
         EvNewService ''verifier'' [''pacts/billy-bobby.json''], EvCommand,
         EvStdoutPipe None, EvStderrPipe None, EvStart None,
         EvReadAll Stdout ''boom'' None, EvReadAll Stderr ''trace'' None,
         EvWait (Some (NewError ''exit status 1'')), EvDecode (Some (NewError ''invalid character''))]"
    by (simp add: VerifyProvider_def scripted_def sampleValidate_def fileRequest_def
          sampleDecode_def sampleDaemon_def noExamples_def)
  have dec1: "json_Decode ?env1 noExamples [''stale''] = ([], None)"
    by (simp add: scripted_def sampleDecode_def)
  have dec2: "json_Decode ?env2 ''boom'' [''stale''] = ([''stale''], Some (NewError ''invalid character''))"
    by (simp add: scripted_def sampleDecode_def noExamples_def)
  have a: "fst ?R1 = [] \<and> fst (snd ?R1) = None"
    using VerifyProvider_result [OF run1 _ _ dec1, of "''1 failure''"] by (simp add: tr1)
  have b: "fst (snd ?R2) = Some (verifyError (NewError ''exit status 1'') ''trace'' ''boom'')
        \<and> sublist ''exit status 1'' (Error (verifyError (NewError ''exit status 1'') ''trace'' ''boom''))
        \<and> sublist ''trace'' (Error (verifyError (NewError ''exit status 1'') ''trace'' ''boom''))
        \<and> sublist ''boom'' (Error (verifyError (NewError ''exit status 1'') ''trace'' ''boom''))"
    using VerifyProvider_result [OF run2 _ _ dec2, of "''trace''"] by (simp add: tr2)
  from a b tr1 run1 show ?thesis
    by (metis (no_types, lifting))
qed

text \<open>
  Claim C1 as it is stated fails. The request below passes validation, the process
  prints \<open>{"examples":[]}\<close>, which is captured and which the decoder accepts, and the
  read of stderr fails: \<open>VerifyProvider\<close> returns the read error and leaves the reply as
  it was, where the claim promises the decoded result and no error.
\<close>

theorem VerifyProvider_result_counterexample:
  "snd (request_Validate
          (scripted (noExamples, None) ('''', Some (NewError ''read |0: file already closed'')) None)
          fileRequest) = None
   \<and> EvReadAll Stdout noExamples None \<in> set (snd (snd (VerifyProvider
          (scripted (noExamples, None) ('''', Some (NewError ''read |0: file already closed'')) None)
          sampleDaemon fileRequest [''stale''] [])))
   \<and> json_Decode
          (scripted (noExamples, None) ('''', Some (NewError ''read |0: file already closed'')) None)
          noExamples [''stale''] = ([], None)
   \<and> fst (VerifyProvider
          (scripted (noExamples, None) ('''', Some (NewError ''read |0: file already closed'')) None)
          sampleDaemon fileRequest [''stale''] []) = [''stale'']
   \<and> fst (snd (VerifyProvider
          (scripted (noExamples, None) ('''', Some (NewError ''read |0: file already closed'')) None)
          sampleDaemon fileRequest [''stale''] [])) = Some (NewError ''read |0: file already closed'')"
  by (simp add: VerifyProvider_def scripted_def sampleValidate_def fileRequest_def
        sampleDecode_def sampleDaemon_def)

subsection \<open>VerifyProvider: validation comes first\<close>

text \<open>
  Claim C2. When the request fails validation with the error \<open>e\<close>, \<open>VerifyProvider\<close>
  returns \<open>e\<close> and leaves the reply as it was; the only events of the call are its log
  line and the validation, so no service handle is constructed, no process is spawned
  and no manager is reached. (The receiver is a copy of the \<open>Daemon\<close> struct; the state
  of the daemon is in its managers.)
\<close>

theorem VerifyProvider_validation_fails:
  assumes "request_Validate env request = (request', Some e)"
  shows "VerifyProvider env d request reply tr =
           (reply, Some e, tr @ [EvLog ''[DEBUG] daemon - verifying provider'', EvValidate (Some e)])
         \<and> (\<forall>ev \<in> set (drop (length tr) (snd (snd (VerifyProvider env d request reply tr)))).
               \<not> isExternal ev)"
  using assms by (simp add: VerifyProvider_def Let_def)

text \<open>The theorem on the request with zero contract locations and no broker URL.\<close>

theorem VerifyProvider_validation_fails_witness:
  "request_Validate (scripted (noExamples, None) ('''', None) None) emptyRequest
     = (emptyRequest, Some (NewError ''Pact URLs is mandatory''))
   \<and> VerifyProvider (scripted (noExamples, None) ('''', None) None) sampleDaemon emptyRequest [''stale''] []
     = ([''stale''], Some (NewError ''Pact URLs is mandatory''),
        [EvLog ''[DEBUG] daemon - verifying provider'',
         EvValidate (Some (NewError ''Pact URLs is mandatory''))])"
proof -
  have v: "request_Validate (scripted (noExamples, None) ('''', None) None) emptyRequest
     = (emptyRequest, Some (NewError ''Pact URLs is mandatory''))"
    by (simp add: scripted_def sampleValidate_def emptyRequest_def)
  from VerifyProvider_validation_fails [OF v, of sampleDaemon "[''stale'']" "[]"] v
  show ?thesis by simp
qed

subsection \<open>VerifyProvider: the streams are drained before the wait\<close>



text \<open>
  Claim C3 as it is stated fails. In the run below the request passes validation and
  the process is started, and the read of stdout returns an error: the call ends there.
  Stderr is never read and the process is never waited on, where the claim says that in
  every call that starts the process both streams are read and the process is waited
  on.
\<close>

theorem VerifyProvider_drain_order_counterexample:
  "VerifyProvider
       (scripted ('''', Some (NewError ''read |0: file already closed'')) ('''', None) None)
       sampleDaemon fileRequest [''stale''] []
     = ([''stale''], Some (NewError ''read |0: file already closed''),
        [EvLog ''[DEBUG] daemon - verifying provider'', EvValidate None,
         EvNewService ''verifier'' [''pacts/billy-bobby.json''], EvCommand,
         EvStdoutPipe None, EvStderrPipe None, EvStart None,
         EvReadAll Stdout '''' (Some (NewError ''read |0: file already closed''))])"
  by (simp add: VerifyProvider_def scripted_def sampleValidate_def fileRequest_def
        sampleDecode_def sampleDaemon_def)

subsection \<open>StopServer\<close>

text \<open>
  Claim C4. Whatever the mock-service manager's \<open>Stop\<close> answers for the pid of the
  request (\<open>success\<close> and \<open>err\<close>), \<open>StopServer\<close> returns no error, and its reply is the
  request with the status 0 when \<open>success\<close> holds and \<open>err\<close> is nil, and the status 1
  otherwise. This holds on every history, so for a pid the manager does not track, and
  a repeated call on the history the first call leaves returns no error either.
\<close>

theorem StopServer_status:
  assumes "svc_Stop env (pactMockSvcManager d) (MockServer.Pid request)
             (tr @ [EvLog ''[DEBUG] daemon - stopping mock server'']) = (success, err)"
  shows "\<exists>reply' tr'. StopServer env d request reply tr = (reply', None, tr')
           \<and> reply' = request\<lparr>Status := (if success \<and> err = None then 0 else 1)\<rparr>
           \<and> (Status reply' = 0 \<longleftrightarrow> success \<and> err = None)
           \<and> (Status reply' = 1 \<longleftrightarrow> \<not> (success \<and> err = None))
           \<and> (\<forall>reply2. fst (snd (StopServer env d request reply2 tr')) = None)"
  using assms by (simp add: StopServer_def Let_def split: prod.splits)

text \<open>
  The theorem on the sample manager, which tracks the pid 42 only: the first stop of
  42 gives the status 0, the second stop of 42 and a stop of the pid 7 give the status
  1, and none returns an error.
\<close>

theorem StopServer_status_witness:
  "StopServer (scripted ('''', None) ('''', None) None) sampleDaemon
       \<lparr>Pid = 42, Port = 8080, Status = -1, Args = []\<rparr> \<lparr>Pid = 0, Port = 0, Status = 0, Args = []\<rparr> []
     = (\<lparr>Pid = 42, Port = 8080, Status = 0, Args = []\<rparr>, None,
        [EvLog ''[DEBUG] daemon - stopping mock server'', EvStop ''mock'' 42 True None])
   \<and> fst (StopServer (scripted ('''', None) ('''', None) None) sampleDaemon
       \<lparr>Pid = 42, Port = 8080, Status = -1, Args = []\<rparr> \<lparr>Pid = 0, Port = 0, Status = 0, Args = []\<rparr>
       [EvLog ''[DEBUG] daemon - stopping mock server'', EvStop ''mock'' 42 True None])
     = \<lparr>Pid = 42, Port = 8080, Status = 1, Args = []\<rparr>
   \<and> fst (snd (StopServer (scripted ('''', None) ('''', None) None) sampleDaemon
       \<lparr>Pid = 42, Port = 8080, Status = -1, Args = []\<rparr> \<lparr>Pid = 0, Port = 0, Status = 0, Args = []\<rparr>
       [EvLog ''[DEBUG] daemon - stopping mock server'', EvStop ''mock'' 42 True None]))
     = None
   \<and> StopServer (scripted ('''', None) ('''', None) None) sampleDaemon
       \<lparr>Pid = 7, Port = 8080, Status = -1, Args = []\<rparr> \<lparr>Pid = 0, Port = 0, Status = 0, Args = []\<rparr> []
     = (\<lparr>Pid = 7, Port = 8080, Status = 1, Args = []\<rparr>, None,
        [EvLog ''[DEBUG] daemon - stopping mock server'',
         EvStop ''mock'' 7 False (Some (NewError ''process not found''))])"
proof -
  let ?env = "scripted ('''', None) ('''', None) None"
  let ?r42 = "\<lparr>Pid = 42, Port = 8080, Status = -1, Args = []\<rparr>"
  let ?r7 = "\<lparr>Pid = 7, Port = 8080, Status = -1, Args = []\<rparr>"
  let ?z = "\<lparr>Pid = 0, Port = 0, Status = 0, Args = []\<rparr>"
  let ?log = "EvLog ''[DEBUG] daemon - stopping mock server'' :: string event"
  have s1: "svc_Stop ?env (pactMockSvcManager sampleDaemon) (MockServer.Pid ?r42) ([] @ [?log])
              = (True, None)"
    by (simp add: scripted_def sampleStop_def sampleDaemon_def)
  have s2: "svc_Stop ?env (pactMockSvcManager sampleDaemon) (MockServer.Pid ?r42)
              ([?log, EvStop ''mock'' 42 True None] @ [?log])
              = (False, Some (NewError ''process not found''))"
    by (simp add: scripted_def sampleStop_def sampleDaemon_def)
  have s3: "svc_Stop ?env (pactMockSvcManager sampleDaemon) (MockServer.Pid ?r7) ([] @ [?log])
              = (False, Some (NewError ''process not found''))"
    by (simp add: scripted_def sampleStop_def sampleDaemon_def)
  from StopServer_status [OF s1, of ?z] StopServer_status [OF s2, of ?z]
       StopServer_status [OF s3, of ?z]
  show ?thesis
    by (simp add: StopServer_def scripted_def sampleStop_def sampleDaemon_def)
qed

subsection \<open>Shutdown\<close>

text \<open>
  Claim C7. \<open>Shutdown\<close> logs, asks the verification manager for its list, and then
  calls \<open>Stop\<close> once for each non-nil entry of that list, in the order of the loop, with
  the pid of the entry and through the mock-service manager; the call has no other
  event, so it stops nothing through the verification manager or the message manager.
  And \<open>StartDaemon\<close> runs this \<open>Shutdown\<close> once it receives a signal: when the channel
  was empty and the operating system delivers an interrupt or a kill, or \<open>StopDaemon\<close>
  sends its interrupt, \<open>StartDaemon\<close> either panics because it cannot listen, or
  receives that signal and finishes with \<open>Shutdown\<close>, having made no stop call before.
\<close>

theorem Shutdown_stops_listed:
  assumes chan: "signalChan d = []"
      and trigger: "d' = os_deliver Interrupt d \<or> d' = os_deliver Kill d
           \<or> (\<exists>request tr0 e tr1. StopDaemon d request tr0 = Some (d', e, tr1))"
  shows "(\<exists>procs stops.
            Shutdown env d' tr =
              tr @ [EvLog ''[DEBUG] daemon - shutdown'', EvList (verificationSvcManager d) procs] @ stops
            \<and> procs = svc_List env (verificationSvcManager d) (tr @ [EvLog ''[DEBUG] daemon - shutdown''])
            \<and> stopsOf stops = map (\<lambda>pid. (pactMockSvcManager d, pid)) (pidsOf procs)
            \<and> length stops = length (pidsOf procs))
       \<and> ((\<exists>e h. StartDaemon env d' port network address tr = Panicked e h)
          \<or> (\<exists>s pre. (s = Interrupt \<or> s = Kill)
                \<and> StartDaemon env d' port network address tr = Finished (Shutdown env d' (tr @ pre))
                \<and> EvReceive s \<in> set pre \<and> stopsOf pre = []))"
proof -
  from trigger_channel [OF chan trigger]
  have ch: "signalChan d' = [Interrupt] \<or> signalChan d' = [Kill]"
    and m: "pactMockSvcManager d' = pactMockSvcManager d"
           "verificationSvcManager d' = verificationSvcManager d"
    by simp_all
  from Shutdown_trace [of env d' tr] m
  have first: "\<exists>procs stops.
            Shutdown env d' tr =
              tr @ [EvLog ''[DEBUG] daemon - shutdown'', EvList (verificationSvcManager d) procs] @ stops
            \<and> procs = svc_List env (verificationSvcManager d) (tr @ [EvLog ''[DEBUG] daemon - shutdown''])
            \<and> stopsOf stops = map (\<lambda>pid. (pactMockSvcManager d, pid)) (pidsOf procs)
            \<and> length stops = length (pidsOf procs)"
    by simp
  have second: "(\<exists>e h. StartDaemon env d' port network address tr = Panicked e h)
          \<or> (\<exists>s pre. (s = Interrupt \<or> s = Kill)
                \<and> StartDaemon env d' port network address tr = Finished (Shutdown env d' (tr @ pre))
                \<and> EvReceive s \<in> set pre \<and> stopsOf pre = [])"
  proof (cases "net_Listen env network (address @ '':'' @ itoa port)
        (tr @ [EvLog (''[INFO] daemon - starting daemon on network: '' @ network
                       @ '' address: '' @ address @ '' port: '' @ itoa port), EvRegister])")
    case (Some e)
    then show ?thesis
      by (simp add: StartDaemon_def Let_def)
  next
    case None
    from ch obtain s where s: "signalChan d' = [s]" "s = Interrupt \<or> s = Kill"
      by blast
    let ?pre = "[EvLog (''[INFO] daemon - starting daemon on network: '' @ network
                       @ '' address: '' @ address @ '' port: '' @ itoa port), EvRegister,
                 EvListen network (address @ '':'' @ itoa port) None, EvServe,
                 EvNotify [Interrupt, Kill], EvReceive s,
                 EvLog (''[INFO] daemon - received signal: '' @ Signal_String s
                         @ '' , shutting down all services'')]"
    have "StartDaemon env d' port network address tr = Finished (Shutdown env d' (tr @ ?pre))"
      using None s by (simp add: StartDaemon_def Let_def)
    moreover have "EvReceive s \<in> set ?pre \<and> stopsOf ?pre = []"
      by simp
    ultimately show ?thesis
      using s(2) by blast
  qed
  from first second show ?thesis
    by (rule conjI)
qed

text \<open>
  The theorem on the sample daemon after \<open>StopDaemon\<close>: the verification manager lists
  the pids 101 and 102 and a nil entry, and the two stop calls of the shutdown go to
  the mock-service manager.
\<close>

theorem Shutdown_stops_listed_witness:
  "signalChan sampleDaemon = []
   \<and> StopDaemon sampleDaemon '''' []
       = Some (sampleDaemon\<lparr>signalChan := [Interrupt]\<rparr>, None, [EvLog ''[DEBUG] daemon - stop daemon''])
   \<and> Shutdown (scripted ('''', None) ('''', None) None) (sampleDaemon\<lparr>signalChan := [Interrupt]\<rparr>) []
       = [EvLog ''[DEBUG] daemon - shutdown'', EvList ''verifier'' sampleList,
          EvStop ''mock'' 101 False (Some (NewError ''process not found'')),
          EvStop ''mock'' 102 False (Some (NewError ''process not found''))]
   \<and> (\<exists>procs stops.
        Shutdown (scripted ('''', None) ('''', None) None) (sampleDaemon\<lparr>signalChan := [Interrupt]\<rparr>) []
          = [] @ [EvLog ''[DEBUG] daemon - shutdown'', EvList ''verifier'' procs] @ stops
        \<and> stopsOf stops = map (\<lambda>pid. (''mock'', pid)) (pidsOf procs))
   \<and> (\<exists>pre. StartDaemon (scripted ('''', None) ('''', None) None)
                (sampleDaemon\<lparr>signalChan := [Interrupt]\<rparr>) 6666 ''tcp'' ''localhost'' []
              = Finished (Shutdown (scripted ('''', None) ('''', None) None)
                  (sampleDaemon\<lparr>signalChan := [Interrupt]\<rparr>) ([] @ pre)))"
proof -
  let ?env = "scripted ('''', None) ('''', None) None"
  let ?d' = "sampleDaemon\<lparr>signalChan := [Interrupt]\<rparr>"
  have chan: "signalChan sampleDaemon = []"
    by (simp add: sampleDaemon_def)
  have stop: "StopDaemon sampleDaemon '''' []
       = Some (?d', None, [EvLog ''[DEBUG] daemon - stop daemon''])"
    by (simp add: StopDaemon_def chan_send_def sampleDaemon_def)
  then have trigger: "?d' = os_deliver Interrupt sampleDaemon \<or> ?d' = os_deliver Kill sampleDaemon
           \<or> (\<exists>request tr0 e tr1. StopDaemon sampleDaemon request tr0 = Some (?d', e, tr1))"
    by blast
  have run: "Shutdown ?env ?d' []
       = [EvLog ''[DEBUG] daemon - shutdown'', EvList ''verifier'' sampleList,
          EvStop ''mock'' 101 False (Some (NewError ''process not found'')),
          EvStop ''mock'' 102 False (Some (NewError ''process not found''))]"
    by (simp add: Shutdown_def scripted_def sampleDaemon_def sampleList_def sampleStop_def)
  have listen: "\<not> (\<exists>e h. StartDaemon ?env ?d' 6666 ''tcp'' ''localhost'' [] = Panicked e h)"
    by (simp add: StartDaemon_def scripted_def sampleDaemon_def)
  from Shutdown_stops_listed [OF chan trigger, of ?env "[]" 6666 "''tcp''" "''localhost''"]
  have "(\<exists>procs stops.
            Shutdown ?env ?d' [] =
              [] @ [EvLog ''[DEBUG] daemon - shutdown'', EvList ''verifier'' procs] @ stops
            \<and> stopsOf stops = map (\<lambda>pid. (''mock'', pid)) (pidsOf procs))
       \<and> (\<exists>pre. StartDaemon ?env ?d' 6666 ''tcp'' ''localhost'' []
                 = Finished (Shutdown ?env ?d' ([] @ pre)))"
    using listen by (simp add: sampleDaemon_def) blast
  with chan stop run show ?thesis
    by blast
qed

section \<open>The session: properties\<close>

subsection \<open>Helper lemmas\<close>

lemma setupLogging_shape:
  "\<exists>pl logs. setupLogging p tr = (pl, tr @ logs)
      \<and> Server pl = Server p \<and> Interactions pl = Interactions p
      \<and> AllowedMockServerPorts pl = AllowedMockServerPorts p
      \<and> (\<forall>c\<in>set logs. \<not> isStartServer c \<and> \<not> isProbe c \<and> \<not> isVerifyStep c)"
  by (simp add: setupLogging_def Let_def)

lemma defaults_fields:
  "Server (defaults env dir p) = Server p"
  "Interactions (defaults env dir p) = Interactions p"
  "AllowedMockServerPorts (defaults env dir p) = AllowedMockServerPorts p"
  by (simp_all add: defaults_def Let_def)

lemma findPort_shape:
  "\<exists>port perr. findPort env p tr =
      (port, perr,
       tr @ [if AllowedMockServerPorts p \<noteq> ''''
             then Utils_FindPortInRange (AllowedMockServerPorts p) port perr
             else Utils_GetFreePort port perr]
          @ (if perr \<noteq> None
             then [Log_Print ''[ERROR] unable to find free port, mockserver will fail to start'']
             else []))
      \<and> (port, perr) = (if AllowedMockServerPorts p \<noteq> ''''
                        then utils_FindPortInRange env (AllowedMockServerPorts p) tr
                        else utils_GetFreePort env tr)"
  by (simp add: findPort_def Let_def split_beta)

lemma Setup_shape:
  "\<exists>p' pre port perr client args server.
      Setup env b p tr =
        (if Server p = None \<and> b then p'\<lparr>Server := server\<rparr> else p',
         tr @ pre
          @ [if AllowedMockServerPorts p \<noteq> ''''
             then Utils_FindPortInRange (AllowedMockServerPorts p) port perr
             else Utils_GetFreePort port perr]
          @ (if perr \<noteq> None
             then [Log_Print ''[ERROR] unable to find free port, mockserver will fail to start'']
             else [])
          @ (if Server p = None \<and> b
             then [Log_Print (''[DEBUG] starting mock service on port: '' @ itoa port),
                   Client_StartServer client args port server]
             else []))
      \<and> Server p' = Server p \<and> Interactions p' = Interactions p
      \<and> (\<forall>c\<in>set pre. \<not> isStartServer c \<and> \<not> isProbe c \<and> \<not> isVerifyStep c)"
proof -
  let ?log1 = "Log_Print ''[DEBUG] pact setup1'' :: 'a call"
  let ?log2 = "Log_Print ''[DEBUG] pact setup2'' :: 'a call"
  from setupLogging_shape [of p "tr @ [?log1]"]
  obtain pl logs where sl: "setupLogging p (tr @ [?log1]) = (pl, (tr @ [?log1]) @ logs)"
    and pl: "Server pl = Server p" "Interactions pl = Interactions p"
            "AllowedMockServerPorts pl = AllowedMockServerPorts p"
    and logs: "\<forall>c\<in>set logs. \<not> isStartServer c \<and> \<not> isProbe c \<and> \<not> isVerifyStep c"
    by blast
  define tr2 where "tr2 = ((tr @ [?log1]) @ logs) @ [?log2]"
  define dir where "dir = os_Getwd env tr2"
  define pd where "pd = defaults env dir pl"
  define client where "client = (case pactClient pd of
                      None \<Rightarrow> \<lparr>PactClient.Port = Pact.Port pd, PactClient.Network = Pact.Network pd,
                                 Address = Host pd\<rparr>
                    | Some c \<Rightarrow> c)"
  define p3 where "p3 = pd\<lparr>pactClient := Some client\<rparr>"
  have p3: "Server p3 = Server p" "Interactions p3 = Interactions p"
           "AllowedMockServerPorts p3 = AllowedMockServerPorts p"
    by (simp_all add: p3_def pd_def defaults_fields pl)
  from findPort_shape [of env p3 "tr2 @ [Os_Getwd dir]"]
  obtain port perr where fp: "findPort env p3 (tr2 @ [Os_Getwd dir]) =
      (port, perr,
       (tr2 @ [Os_Getwd dir]) @ [if AllowedMockServerPorts p \<noteq> ''''
             then Utils_FindPortInRange (AllowedMockServerPorts p) port perr
             else Utils_GetFreePort port perr]
          @ (if perr \<noteq> None
             then [Log_Print ''[ERROR] unable to find free port, mockserver will fail to start'']
             else []))"
    unfolding p3(3) by blast
  define tr4 where "tr4 = (tr2 @ [Os_Getwd dir]) @ [if AllowedMockServerPorts p \<noteq> ''''
             then Utils_FindPortInRange (AllowedMockServerPorts p) port perr
             else Utils_GetFreePort port perr]
          @ (if perr \<noteq> None
             then [Log_Print ''[ERROR] unable to find free port, mockserver will fail to start'']
             else [])"
  define tr5 where "tr5 = tr4 @ [Log_Print (''[DEBUG] starting mock service on port: '' @ itoa port)]"
  define server where "server = client_StartServer env client (mockServerArgs env p3) port tr5"
  have eq: "Setup env b p tr =
      (if Server p3 = None \<and> b
       then (p3\<lparr>Server := server\<rparr>, tr5 @ [Client_StartServer client (mockServerArgs env p3) port server])
       else (p3, tr4))"
    unfolding Setup_def Let_def sl prod.case
    unfolding tr2_def [symmetric] dir_def [symmetric]
    unfolding pd_def [symmetric]
    unfolding client_def [symmetric]
    unfolding p3_def [symmetric]
    unfolding fp [unfolded tr4_def [symmetric]] prod.case
    unfolding tr5_def [symmetric]
    unfolding server_def [symmetric]
    by (rule refl)
  let ?pre = "[?log1] @ logs @ [?log2, Os_Getwd dir]"
  have pre: "\<forall>c\<in>set ?pre. \<not> isStartServer c \<and> \<not> isProbe c \<and> \<not> isVerifyStep c"
    using logs by simp
  show ?thesis
    apply (rule exI [of _ p3], rule exI [of _ ?pre], rule exI [of _ port], rule exI [of _ perr])
    apply (rule exI [of _ client], rule exI [of _ "mockServerArgs env p3"], rule exI [of _ server])
    apply (intro conjI)
       apply (simp add: eq p3 tr5_def tr4_def tr2_def)
      apply (rule p3(1))
     apply (rule p3(2))
    apply (rule pre)
    done
qed

lemma Setup_calls:
  "\<exists>new. snd (Setup env b p tr) = tr @ new \<and> (\<forall>c\<in>set new. \<not> isVerifyStep c)
      \<and> Interactions (fst (Setup env b p tr)) = Interactions p"
proof -
  from Setup_shape [of env b p tr]
  obtain p' pre port perr client args server where
    eq: "Setup env b p tr =
        (if Server p = None \<and> b then p'\<lparr>Server := server\<rparr> else p',
         tr @ pre
          @ [if AllowedMockServerPorts p \<noteq> ''''
             then Utils_FindPortInRange (AllowedMockServerPorts p) port perr
             else Utils_GetFreePort port perr]
          @ (if perr \<noteq> None
             then [Log_Print ''[ERROR] unable to find free port, mockserver will fail to start'']
             else [])
          @ (if Server p = None \<and> b
             then [Log_Print (''[DEBUG] starting mock service on port: '' @ itoa port),
                   Client_StartServer client args port server]
             else []))"
    and i: "Interactions p' = Interactions p"
    and pre: "\<forall>c\<in>set pre. \<not> isStartServer c \<and> \<not> isProbe c \<and> \<not> isVerifyStep c"
    by blast
  show ?thesis
    unfolding eq using i pre by auto
qed

lemma addInteractions_shape:
  "\<exists>adds. snd (addInteractions env ms xs tr) = tr @ adds
      \<and> (\<forall>c\<in>set adds. \<exists>i e. c = Mock_AddInteraction ms i e)
      \<and> (\<forall>m i e. Mock_AddInteraction m i (Some e) \<in> set adds
            \<longrightarrow> fst (addInteractions env ms xs tr) = Some e)"
proof (induction xs arbitrary: tr)
  case Nil
  show ?case by simp
next
  case (Cons x xs)
  show ?case
  proof (cases "mock_AddInteraction env ms x tr")
    case None
    from Cons [of "tr @ [Mock_AddInteraction ms x None]"]
    obtain adds where
      a: "snd (addInteractions env ms xs (tr @ [Mock_AddInteraction ms x None]))
            = (tr @ [Mock_AddInteraction ms x None]) @ adds"
         "\<forall>c\<in>set adds. \<exists>i e. c = Mock_AddInteraction ms i e"
         "\<forall>m i e. Mock_AddInteraction m i (Some e) \<in> set adds
            \<longrightarrow> fst (addInteractions env ms xs (tr @ [Mock_AddInteraction ms x None])) = Some e"
      by blast
    show ?thesis
      using None a
      by (intro exI [of _ "Mock_AddInteraction ms x None # adds"]) (simp add: Let_def)
  next
    case (Some e)
    then show ?thesis
      by (intro exI [of _ "[Mock_AddInteraction ms x (Some e)]"]) (simp add: Let_def)
  qed
qed

lemma Verify_shape:
  "\<exists>p1 new1 adds err.
     Setup env True p tr = (p1, tr @ new1)
   \<and> (\<forall>c\<in>set new1. \<not> isVerifyStep c)
   \<and> Interactions p1 = Interactions p
   \<and> (\<forall>c\<in>set adds. \<exists>m i e. c = Mock_AddInteraction m i e)
   \<and> (\<forall>m i e. Mock_AddInteraction m i (Some e) \<in> set adds \<longrightarrow> err = Some e)
   \<and> ((adds = [] \<and> Verify env integrationTest p tr
          = (NilPointerPanic, p1, tr @ new1 @ [Log_Print ''[DEBUG] pact verify'']))
      \<or> (\<exists>e. err = Some e \<and> Verify env integrationTest p tr
            = (Returned (Some e), p1, tr @ new1 @ [Log_Print ''[DEBUG] pact verify''] @ adds))
      \<or> (err = None \<and>
          ((\<exists>e. Verify env integrationTest p tr
                = (Returned (Some e), p1,
                   tr @ new1 @ [Log_Print ''[DEBUG] pact verify''] @ adds @ [Run_integrationTest (Some e)]))
         \<or> (\<exists>e m. Verify env integrationTest p tr
                = (Returned (Some e), p1,
                   tr @ new1 @ [Log_Print ''[DEBUG] pact verify''] @ adds
                     @ [Run_integrationTest None, Mock_Verify m (Some e)]))
         \<or> (\<exists>r m. Verify env integrationTest p tr
                = (Returned r, p1\<lparr>Interactions := []\<rparr>,
                   tr @ new1 @ [Log_Print ''[DEBUG] pact verify''] @ adds
                     @ [Run_integrationTest None, Mock_Verify m None, Mock_DeleteInteractions m r])))))"
proof -
  from Setup_calls [of env True p tr]
  obtain new1 where s: "snd (Setup env True p tr) = tr @ new1"
      "\<forall>c\<in>set new1. \<not> isVerifyStep c"
      "Interactions (fst (Setup env True p tr)) = Interactions p"
    by blast
  define p1 where "p1 = fst (Setup env True p tr)"
  have S: "Setup env True p tr = (p1, tr @ new1)"
    by (simp add: p1_def s(1) [symmetric])
  have i1: "Interactions p1 = Interactions p"
    by (simp add: p1_def s(3))
  define h where "h = (tr @ new1) @ [Log_Print ''[DEBUG] pact verify'']"
  show ?thesis
  proof (cases "Server p1")
    case None
    have "Verify env integrationTest p tr = (NilPointerPanic, p1, h)"
      unfolding Verify_def Let_def S prod.case None option.case h_def by (rule refl)
    then show ?thesis
      using S s(2) i1
      by (intro exI [of _ p1] exI [of _ new1] exI [of _ "[]"] exI [of _ None]) (simp add: h_def)
  next
    case (Some server)
    define ms where "ms = \<lparr>BaseURL = ''http://'' @ Host p1 @ '':'' @ itoa (MockServer.Port server),
                         MockService.Consumer = Pact.Consumer p1,
                         MockService.Provider = Pact.Provider p1,
                         MockService.PactFileWriteMode = ''''\<rparr>"
    from addInteractions_shape [of env ms "Interactions p1" h]
    obtain adds where a: "snd (addInteractions env ms (Interactions p1) h) = h @ adds"
      "\<forall>c\<in>set adds. \<exists>i e. c = Mock_AddInteraction ms i e"
      "\<forall>m i e. Mock_AddInteraction m i (Some e) \<in> set adds
            \<longrightarrow> fst (addInteractions env ms (Interactions p1) h) = Some e"
      by blast
    define err where "err = fst (addInteractions env ms (Interactions p1) h)"
    have A: "addInteractions env ms (Interactions p1) h = (err, h @ adds)"
      by (simp add: err_def a(1) [symmetric])
    define r1 where "r1 = integrationTest (h @ adds)"
    define h2 where "h2 = (h @ adds) @ [Run_integrationTest r1]"
    define r2 where "r2 = mock_Verify env ms h2"
    define h3 where "h3 = h2 @ [Mock_Verify ms r2]"
    define r3 where "r3 = mock_DeleteInteractions env ms h3"
    have eq: "Verify env integrationTest p tr =
        (if err \<noteq> None then (Returned err, p1, h @ adds) else
         if r1 \<noteq> None then (Returned r1, p1, h2) else
         if r2 \<noteq> None then (Returned r2, p1, h3) else
         (Returned r3, p1\<lparr>Interactions := []\<rparr>, h3 @ [Mock_DeleteInteractions ms r3]))"
      unfolding Verify_def Let_def S prod.case Some option.case
      unfolding h_def [symmetric]
      unfolding ms_def [symmetric]
      unfolding A prod.case
      unfolding r1_def [symmetric]
      unfolding h2_def [symmetric]
      unfolding r2_def [symmetric]
      unfolding h3_def [symmetric]
      unfolding r3_def [symmetric]
      by (rule refl)
    have adds_ok: "\<forall>c\<in>set adds. \<exists>m i e. c = Mock_AddInteraction m i e"
      using a(2) by blast
    have adds_err: "\<forall>m i e. Mock_AddInteraction m i (Some e) \<in> set adds \<longrightarrow> err = Some e"
      using a(3) by (simp add: err_def)
    have "(\<exists>e. err = Some e \<and> Verify env integrationTest p tr
            = (Returned (Some e), p1, tr @ new1 @ [Log_Print ''[DEBUG] pact verify''] @ adds))
      \<or> (err = None \<and>
          ((\<exists>e. Verify env integrationTest p tr
                = (Returned (Some e), p1,
                   tr @ new1 @ [Log_Print ''[DEBUG] pact verify''] @ adds @ [Run_integrationTest (Some e)]))
         \<or> (\<exists>e m. Verify env integrationTest p tr
                = (Returned (Some e), p1,
                   tr @ new1 @ [Log_Print ''[DEBUG] pact verify''] @ adds
                     @ [Run_integrationTest None, Mock_Verify m (Some e)]))
         \<or> (\<exists>r m. Verify env integrationTest p tr
                = (Returned r, p1\<lparr>Interactions := []\<rparr>,
                   tr @ new1 @ [Log_Print ''[DEBUG] pact verify''] @ adds
                     @ [Run_integrationTest None, Mock_Verify m None, Mock_DeleteInteractions m r]))))"
    proof (cases err)
      case (Some e)
      then show ?thesis
        by (simp add: eq h_def)
    next
      case None
      note e0 = None
      show ?thesis
      proof (cases r1)
        case (Some e)
        then show ?thesis
          using e0 by (simp add: eq h_def h2_def)
      next
        case None
        note e1 = None
        show ?thesis
        proof (cases r2)
          case (Some e)
          then show ?thesis
            using e0 e1 by (simp add: eq h_def h2_def h3_def; blast?)
        next
          case None
          then show ?thesis
            using e0 e1 by (simp add: eq h_def h2_def h3_def; blast?)
        qed
      qed
    qed
    then show ?thesis
      using S s(2) i1 adds_ok adds_err
      by (intro exI [of _ p1] exI [of _ new1] exI [of _ adds] exI [of _ err]) simp
  qed
qed


lemma registered_simps:
  "registered ms [] = []"
  "registered ms (x # xs) = Mock_AddInteraction ms x None # registered ms xs"
  by (simp_all add: registered_def)

lemma addInteractions_all:
  assumes "\<forall>k<length xs. mock_AddInteraction env ms (xs ! k) (h @ registered ms (take k xs)) = None"
  shows "addInteractions env ms xs h = (None, h @ registered ms xs)"
  using assms
proof (induction xs arbitrary: h)
  case Nil
  show ?case by (simp add: registered_simps Let_def)
next
  case (Cons x xs)
  from Cons.prems [rule_format, of 0] have x: "mock_AddInteraction env ms x h = None"
    by (simp add: registered_simps Let_def)
  have "\<forall>k<length xs. mock_AddInteraction env ms (xs ! k)
           ((h @ [Mock_AddInteraction ms x None]) @ registered ms (take k xs)) = None"
  proof (intro allI impI)
    fix k assume "k < length xs"
    with Cons.prems [rule_format, of "Suc k"] show "mock_AddInteraction env ms (xs ! k)
           ((h @ [Mock_AddInteraction ms x None]) @ registered ms (take k xs)) = None"
      by (simp add: registered_simps Let_def)
  qed
  from Cons.IH [OF this] x show ?case
    by (simp add: registered_simps Let_def)
qed

lemma addInteractions_first_failure:
  assumes "\<forall>k<length pre. mock_AddInteraction env ms (pre ! k) (h @ registered ms (take k pre)) = None"
      and "mock_AddInteraction env ms x (h @ registered ms pre) = Some e"
  shows "addInteractions env ms (pre @ x # post) h
           = (Some e, h @ registered ms pre @ [Mock_AddInteraction ms x (Some e)])"
  using assms
proof (induction pre arbitrary: h)
  case Nil
  then show ?case by (simp add: registered_simps Let_def)
next
  case (Cons y pre)
  from Cons.prems(1) [rule_format, of 0] have y: "mock_AddInteraction env ms y h = None"
    by (simp add: registered_simps Let_def)
  have a: "\<forall>k<length pre. mock_AddInteraction env ms (pre ! k)
           ((h @ [Mock_AddInteraction ms y None]) @ registered ms (take k pre)) = None"
  proof (intro allI impI)
    fix k assume "k < length pre"
    with Cons.prems(1) [rule_format, of "Suc k"] show "mock_AddInteraction env ms (pre ! k)
           ((h @ [Mock_AddInteraction ms y None]) @ registered ms (take k pre)) = None"
      by (simp add: registered_simps Let_def)
  qed
  have b: "mock_AddInteraction env ms x ((h @ [Mock_AddInteraction ms y None]) @ registered ms pre) = Some e"
    using Cons.prems(2) by (simp add: registered_simps Let_def)
  from Cons.IH [OF a b] y show ?case
    by (simp add: registered_simps Let_def)
qed

lemma Verify_unfold:
  assumes s: "Setup env True p tr = (p1, h1)"
      and srv: "Server p1 = Some server"
      and a: "addInteractions env (mockServiceFor p1 server) (Interactions p1)
                (h1 @ [Log_Print ''[DEBUG] pact verify'']) = (err, ha)"
  shows "Verify env integrationTest p tr =
     (if err \<noteq> None then (Returned err, p1, ha) else
      let r1 = integrationTest ha;
          h2 = ha @ [Run_integrationTest r1]
      in if r1 \<noteq> None then (Returned r1, p1, h2) else
      let r2 = mock_Verify env (mockServiceFor p1 server) h2;
          h3 = h2 @ [Mock_Verify (mockServiceFor p1 server) r2]
      in if r2 \<noteq> None then (Returned r2, p1, h3) else
      let r3 = mock_DeleteInteractions env (mockServiceFor p1 server) h3
      in (Returned r3, p1\<lparr>Interactions := []\<rparr>,
          h3 @ [Mock_DeleteInteractions (mockServiceFor p1 server) r3]))"
  unfolding Verify_def Let_def s prod.case srv option.case
  unfolding mockServiceFor_def [symmetric]
  unfolding a prod.case
  by (rule refl)

lemma Verify_nil_server:
  assumes s: "Setup env True p tr = (p1, h1)"
      and srv: "Server p1 = None"
  shows "Verify env integrationTest p tr
           = (NilPointerPanic, p1, h1 @ [Log_Print ''[DEBUG] pact verify''])"
  unfolding Verify_def Let_def s prod.case srv option.case
  by (rule refl)

lemma no_verify_step:
  assumes "\<forall>c\<in>set xs. \<not> isVerifyStep c"
  shows "Mock_AddInteraction m i e \<notin> set xs" and "Run_integrationTest e \<notin> set xs"
    and "Mock_Verify m e \<notin> set xs" and "Mock_DeleteInteractions m e \<notin> set xs"
  using assms by auto

lemma only_adds:
  assumes "\<forall>c\<in>set xs. \<exists>m i e. c = Mock_AddInteraction m i e"
  shows "Run_integrationTest e \<notin> set xs"
    and "Mock_Verify m e \<notin> set xs" and "Mock_DeleteInteractions m e \<notin> set xs"
  using assms by auto


text \<open>
  The calls of one run of \<open>Verify\<close>, whatever the mock service and the test function
  answer.
\<close>

lemma Verify_events:
  assumes run: "Verify env integrationTest p tr = (res, p', tr')"
  shows "\<exists>new. tr' = tr @ new
     \<and> (\<forall>m i e. Mock_AddInteraction m i (Some e) \<in> set new
           \<longrightarrow> res = Returned (Some e) \<and> (\<forall>r. Run_integrationTest r \<notin> set new))
     \<and> (\<forall>e. Run_integrationTest (Some e) \<in> set new
           \<longrightarrow> res = Returned (Some e) \<and> (\<forall>m r. Mock_Verify m r \<notin> set new))
     \<and> ((\<exists>m. Mock_Verify m None \<in> set new)
           \<longrightarrow> Interactions p' = []
             \<and> (\<exists>m r pre. new = pre @ [Mock_Verify m None, Mock_DeleteInteractions m r]
                   \<and> res = Returned r))
     \<and> ((\<forall>m. Mock_Verify m None \<notin> set new)
           \<longrightarrow> Interactions p' = Interactions p
             \<and> (\<forall>m r. Mock_DeleteInteractions m r \<notin> set new))
     \<and> (res = Returned None \<longrightarrow> Interactions p' = [])"
proof -
  let ?log = "Log_Print ''[DEBUG] pact verify'' :: 'a call"
  from Verify_shape [of env p tr integrationTest]
  obtain p1 new1 adds err where
    n1: "\<forall>c\<in>set new1. \<not> isVerifyStep c"
    and i1: "Interactions p1 = Interactions p"
    and ad: "\<forall>c\<in>set adds. \<exists>m i e. c = Mock_AddInteraction m i e"
    and ae: "\<forall>m i e. Mock_AddInteraction m i (Some e) \<in> set adds \<longrightarrow> err = Some e"
    and cases: "(adds = [] \<and> Verify env integrationTest p tr = (NilPointerPanic, p1, tr @ new1 @ [?log]))
      \<or> (\<exists>e. err = Some e \<and> Verify env integrationTest p tr
            = (Returned (Some e), p1, tr @ new1 @ [?log] @ adds))
      \<or> (err = None \<and>
          ((\<exists>e. Verify env integrationTest p tr
                = (Returned (Some e), p1, tr @ new1 @ [?log] @ adds @ [Run_integrationTest (Some e)]))
         \<or> (\<exists>e m. Verify env integrationTest p tr
                = (Returned (Some e), p1,
                   tr @ new1 @ [?log] @ adds @ [Run_integrationTest None, Mock_Verify m (Some e)]))
         \<or> (\<exists>r m. Verify env integrationTest p tr
                = (Returned r, p1\<lparr>Interactions := []\<rparr>,
                   tr @ new1 @ [?log] @ adds
                     @ [Run_integrationTest None, Mock_Verify m None, Mock_DeleteInteractions m r]))))"
    by (elim exE conjE)
  note n = no_verify_step [OF n1] only_adds [OF ad]
  have panic: ?thesis
    if "adds = []"
      and v: "Verify env integrationTest p tr = (NilPointerPanic, p1, tr @ new1 @ [?log])"
  proof -
    from run v have r: "res = NilPointerPanic" "p' = p1" "tr' = tr @ new1 @ [?log]"
      by simp_all
    show ?thesis
      by (rule exI [of _ "new1 @ [?log]"]) (simp add: r n i1)
  qed
  have register: ?thesis
    if e: "err = Some e"
      and v: "Verify env integrationTest p tr = (Returned (Some e), p1, tr @ new1 @ [?log] @ adds)"
    for e
  proof -
    from run v have r: "res = Returned (Some e)" "p' = p1" "tr' = tr @ new1 @ [?log] @ adds"
      by simp_all
    from ae e have ae': "\<And>m i e'. Mock_AddInteraction m i (Some e') \<in> set adds \<Longrightarrow> e' = e"
      by auto
    show ?thesis
      by (rule exI [of _ "new1 @ [?log] @ adds"]) (auto simp add: r n i1 dest: ae')
  qed
  from ae have none: "\<And>m i e'. err = None \<Longrightarrow> Mock_AddInteraction m i (Some e') \<notin> set adds"
    by auto
  have test: ?thesis
    if e: "err = None"
      and v: "Verify env integrationTest p tr
                = (Returned (Some e), p1, tr @ new1 @ [?log] @ adds @ [Run_integrationTest (Some e)])"
    for e
  proof -
    from run v have r: "res = Returned (Some e)" "p' = p1"
        "tr' = tr @ new1 @ [?log] @ adds @ [Run_integrationTest (Some e)]"
      by simp_all
    show ?thesis
      by (rule exI [of _ "new1 @ [?log] @ adds @ [Run_integrationTest (Some e)]"])
         (simp add: r n i1 none [OF e])
  qed
  have verify: ?thesis
    if e: "err = None"
      and v: "Verify env integrationTest p tr
                = (Returned (Some e), p1,
                   tr @ new1 @ [?log] @ adds @ [Run_integrationTest None, Mock_Verify m (Some e)])"
    for e m
  proof -
    from run v have r: "res = Returned (Some e)" "p' = p1"
        "tr' = tr @ new1 @ [?log] @ adds @ [Run_integrationTest None, Mock_Verify m (Some e)]"
      by simp_all
    show ?thesis
      by (rule exI [of _ "new1 @ [?log] @ adds @ [Run_integrationTest None, Mock_Verify m (Some e)]"])
         (simp add: r n i1 none [OF e])
  qed
  have delete: ?thesis
    if e: "err = None"
      and v: "Verify env integrationTest p tr
                = (Returned r, p1\<lparr>Interactions := []\<rparr>,
                   tr @ new1 @ [?log] @ adds
                     @ [Run_integrationTest None, Mock_Verify m None, Mock_DeleteInteractions m r])"
    for r m
  proof -
    from run v have r: "res = Returned r" "p' = p1\<lparr>Interactions := []\<rparr>"
        "tr' = tr @ new1 @ [?log] @ adds
                 @ [Run_integrationTest None, Mock_Verify m None, Mock_DeleteInteractions m r]"
      by simp_all
    have last: "\<exists>m' r' pre.
        new1 @ [?log] @ adds @ [Run_integrationTest None, Mock_Verify m None, Mock_DeleteInteractions m r]
          = pre @ [Mock_Verify m' None, Mock_DeleteInteractions m' r'] \<and> Returned r = Returned r'"
      by (intro exI [of _ m] exI [of _ r] exI [of _ "new1 @ [?log] @ adds @ [Run_integrationTest None]"])
         simp
    show ?thesis
      using last
      by (intro exI [of _ "new1 @ [?log] @ adds
             @ [Run_integrationTest None, Mock_Verify m None, Mock_DeleteInteractions m r]"])
         (simp add: r n none [OF e])
  qed
  from cases show ?thesis
    by (elim disjE exE conjE) (rule panic register test verify delete; assumption)+
qed

subsection \<open>Verify\<close>

text \<open>
  Claim C5. \<open>Verify\<close> first runs \<open>Setup(true)\<close>; let \<open>p1\<close> be the session and \<open>h1\<close> the
  history it leaves. \<open>Setup\<close> does not touch the interaction list. When \<open>p1\<close> has a
  server, let \<open>ms\<close> be the mock service \<open>Verify\<close> then addresses and \<open>h\<close> the history
  when the registration starts. What \<open>Verify\<close> does next is decided by the answers of the
  mock service and of the test function.
  \<^item> If \<open>Setup\<close> leaves the session without a server, \<open>Verify\<close> panics on the nil server
    reference right after its log line: nothing is registered, run or verified.
  \<^item> If the mock service accepts the interactions \<open>pre\<close> and refuses the next one, \<open>x\<close>,
    with the error \<open>e\<close>, then \<open>Verify\<close> returns \<open>e\<close>, the session is as \<open>Setup\<close> left
    it, and the run ends with the refused registration: the test function is not run.
  \<^item> If the mock service accepts every interaction and the test function returns the
    error \<open>e\<close>, then \<open>Verify\<close> returns \<open>e\<close>, the session is as \<open>Setup\<close> left it, and the
    run ends with the test function: the mock service is not asked to verify.
  \<^item> If the test function succeeds and the mock service's verification returns the
    error \<open>e\<close>, then \<open>Verify\<close> returns \<open>e\<close> and the interaction list is not reset.
  \<^item> If the verification succeeds, the interaction list is reset to empty, then the
    mock service is asked to delete its interactions, and \<open>Verify\<close> returns what the
    deletion returns.

  For every run, seen through the calls \<open>new\<close> it makes: a failed registration or a
  failed test function is what \<open>Verify\<close> returns; the list is empty after a successful
  verification, which is followed by the deletion only; in every other run the list is
  as it was and no deletion is requested. So the interaction list is empty whenever
  \<open>Verify\<close> returns no error.
\<close>

theorem Verify_sequence:
  assumes run: "Verify env integrationTest p tr = (res, p', tr')"
      and init: "Setup env True p tr = (p1, h1)"
  shows "Interactions p1 = Interactions p
     \<and> (Server p1 = None
         \<longrightarrow> res = NilPointerPanic \<and> p' = p1 \<and> tr' = h1 @ [Log_Print ''[DEBUG] pact verify''])
     \<and> (\<forall>server ms h.
           Server p1 = Some server \<and> ms = mockServiceFor p1 server
             \<and> h = h1 @ [Log_Print ''[DEBUG] pact verify'']
         \<longrightarrow>
           (\<forall>pre x post e.
               Interactions p1 = pre @ x # post
               \<and> (\<forall>k<length pre.
                      mock_AddInteraction env ms (pre ! k) (h @ registered ms (take k pre)) = None)
               \<and> mock_AddInteraction env ms x (h @ registered ms pre) = Some e
             \<longrightarrow> res = Returned (Some e) \<and> p' = p1
                 \<and> tr' = h @ registered ms pre @ [Mock_AddInteraction ms x (Some e)])
         \<and> ((\<forall>k<length (Interactions p1).
                 mock_AddInteraction env ms (Interactions p1 ! k)
                   (h @ registered ms (take k (Interactions p1))) = None)
             \<longrightarrow> (\<forall>ht. ht = h @ registered ms (Interactions p1) \<longrightarrow>
                   (\<forall>e. integrationTest ht = Some e
                      \<longrightarrow> res = Returned (Some e) \<and> p' = p1
                        \<and> tr' = ht @ [Run_integrationTest (Some e)])
                 \<and> (\<forall>e. integrationTest ht = None
                        \<and> mock_Verify env ms (ht @ [Run_integrationTest None]) = Some e
                      \<longrightarrow> res = Returned (Some e) \<and> p' = p1
                        \<and> tr' = ht @ [Run_integrationTest None, Mock_Verify ms (Some e)])
                 \<and> (\<forall>r. integrationTest ht = None
                        \<and> mock_Verify env ms (ht @ [Run_integrationTest None]) = None
                        \<and> mock_DeleteInteractions env ms
                            (ht @ [Run_integrationTest None, Mock_Verify ms None]) = r
                      \<longrightarrow> res = Returned r \<and> p' = p1\<lparr>Interactions := []\<rparr>
                        \<and> tr' = ht @ [Run_integrationTest None, Mock_Verify ms None,
                                      Mock_DeleteInteractions ms r]))))
     \<and> (res = Returned None \<longrightarrow> Interactions p' = [])
     \<and> (\<exists>new. tr' = tr @ new
         \<and> (\<forall>m i e. Mock_AddInteraction m i (Some e) \<in> set new
               \<longrightarrow> res = Returned (Some e) \<and> (\<forall>r. Run_integrationTest r \<notin> set new))
         \<and> (\<forall>e. Run_integrationTest (Some e) \<in> set new
               \<longrightarrow> res = Returned (Some e) \<and> (\<forall>m r. Mock_Verify m r \<notin> set new))
         \<and> ((\<exists>m. Mock_Verify m None \<in> set new)
               \<longrightarrow> Interactions p' = []
                 \<and> (\<exists>m r pre. new = pre @ [Mock_Verify m None, Mock_DeleteInteractions m r]
                       \<and> res = Returned r))
         \<and> ((\<forall>m. Mock_Verify m None \<notin> set new)
               \<longrightarrow> Interactions p' = Interactions p
                 \<and> (\<forall>m r. Mock_DeleteInteractions m r \<notin> set new)))"
proof -
  let ?log = "Log_Print ''[DEBUG] pact verify'' :: 'a call"
  from Setup_calls [of env True p tr]
  have "Interactions (fst (Setup env True p tr)) = Interactions p"
    by (elim exE conjE)
  then have i1: "Interactions p1 = Interactions p"
    unfolding init fst_conv .
  have nil: "Server p1 = None
         \<longrightarrow> res = NilPointerPanic \<and> p' = p1 \<and> tr' = h1 @ [?log]"
  proof (intro impI)
    assume "Server p1 = None"
    from Verify_nil_server [OF init this, of integrationTest] run
    show "res = NilPointerPanic \<and> p' = p1 \<and> tr' = h1 @ [?log]"
      by simp
  qed
  have A: "res = Returned (Some e) \<and> p' = p1
             \<and> tr' = h @ registered ms pre @ [Mock_AddInteraction ms x (Some e)]"
    if srv: "Server p1 = Some server" and ms: "ms = mockServiceFor p1 server"
      and h: "h = h1 @ [?log]"
      and xs: "Interactions p1 = pre @ x # post"
      and ok: "\<forall>k<length pre.
                 mock_AddInteraction env ms (pre ! k) (h @ registered ms (take k pre)) = None"
      and bad: "mock_AddInteraction env ms x (h @ registered ms pre) = Some e"
    for server ms h pre x post e
  proof -
    from addInteractions_first_failure [OF ok bad, of post]
    have "addInteractions env (mockServiceFor p1 server) (Interactions p1) (h1 @ [?log])
            = (Some e, h @ registered ms pre @ [Mock_AddInteraction ms x (Some e)])"
      unfolding xs ms h .
    from Verify_unfold [OF init srv this, of integrationTest] run show ?thesis
      by simp
  qed
  have B: "(\<forall>e. integrationTest ht = Some e
                      \<longrightarrow> res = Returned (Some e) \<and> p' = p1
                        \<and> tr' = ht @ [Run_integrationTest (Some e)])
                 \<and> (\<forall>e. integrationTest ht = None
                        \<and> mock_Verify env ms (ht @ [Run_integrationTest None]) = Some e
                      \<longrightarrow> res = Returned (Some e) \<and> p' = p1
                        \<and> tr' = ht @ [Run_integrationTest None, Mock_Verify ms (Some e)])
                 \<and> (\<forall>r. integrationTest ht = None
                        \<and> mock_Verify env ms (ht @ [Run_integrationTest None]) = None
                        \<and> mock_DeleteInteractions env ms
                            (ht @ [Run_integrationTest None, Mock_Verify ms None]) = r
                      \<longrightarrow> res = Returned r \<and> p' = p1\<lparr>Interactions := []\<rparr>
                        \<and> tr' = ht @ [Run_integrationTest None, Mock_Verify ms None,
                                      Mock_DeleteInteractions ms r])"
    if srv: "Server p1 = Some server" and ms: "ms = mockServiceFor p1 server"
      and h: "h = h1 @ [?log]"
      and ok: "\<forall>k<length (Interactions p1).
                 mock_AddInteraction env ms (Interactions p1 ! k)
                   (h @ registered ms (take k (Interactions p1))) = None"
      and ht: "ht = h @ registered ms (Interactions p1)"
    for server ms h ht
  proof -
    from addInteractions_all [OF ok]
    have "addInteractions env (mockServiceFor p1 server) (Interactions p1) (h1 @ [?log])
            = (None, ht)"
      unfolding ms h ht .
    from Verify_unfold [OF init srv this, of integrationTest]
    have v: "(res, p', tr') =
       (let r1 = integrationTest ht;
            h2 = ht @ [Run_integrationTest r1]
        in if r1 \<noteq> None then (Returned r1, p1, h2) else
        let r2 = mock_Verify env ms h2;
            h3 = h2 @ [Mock_Verify ms r2]
        in if r2 \<noteq> None then (Returned r2, p1, h3) else
        let r3 = mock_DeleteInteractions env ms h3
        in (Returned r3, p1\<lparr>Interactions := []\<rparr>, h3 @ [Mock_DeleteInteractions ms r3]))"
      unfolding run ms by (simp only: simp_thms if_False)
    have b1: "res = Returned (Some e) \<and> p' = p1 \<and> tr' = ht @ [Run_integrationTest (Some e)]"
      if "integrationTest ht = Some e" for e
      using v that by (simp add: Let_def)
    have b2: "res = Returned (Some e) \<and> p' = p1
                \<and> tr' = ht @ [Run_integrationTest None, Mock_Verify ms (Some e)]"
      if "integrationTest ht = None \<and> mock_Verify env ms (ht @ [Run_integrationTest None]) = Some e"
      for e
      using v that by (simp add: Let_def)
    have b3: "res = Returned r \<and> p' = p1\<lparr>Interactions := []\<rparr>
                \<and> tr' = ht @ [Run_integrationTest None, Mock_Verify ms None,
                              Mock_DeleteInteractions ms r]"
      if "integrationTest ht = None
            \<and> mock_Verify env ms (ht @ [Run_integrationTest None]) = None
            \<and> mock_DeleteInteractions env ms
                  (ht @ [Run_integrationTest None, Mock_Verify ms None]) = r"
      for r
      using v that by (simp add: Let_def)
    show ?thesis
      by (intro conjI allI impI; (drule b1 | drule b2 | drule b3); elim conjE; assumption)
  qed
  have main: "\<forall>server ms h.
           Server p1 = Some server \<and> ms = mockServiceFor p1 server
             \<and> h = h1 @ [?log]
         \<longrightarrow>
           (\<forall>pre x post e.
               Interactions p1 = pre @ x # post
               \<and> (\<forall>k<length pre.
                      mock_AddInteraction env ms (pre ! k) (h @ registered ms (take k pre)) = None)
               \<and> mock_AddInteraction env ms x (h @ registered ms pre) = Some e
             \<longrightarrow> res = Returned (Some e) \<and> p' = p1
                 \<and> tr' = h @ registered ms pre @ [Mock_AddInteraction ms x (Some e)])
         \<and> ((\<forall>k<length (Interactions p1).
                 mock_AddInteraction env ms (Interactions p1 ! k)
                   (h @ registered ms (take k (Interactions p1))) = None)
             \<longrightarrow> (\<forall>ht. ht = h @ registered ms (Interactions p1) \<longrightarrow>
                   (\<forall>e. integrationTest ht = Some e
                      \<longrightarrow> res = Returned (Some e) \<and> p' = p1
                        \<and> tr' = ht @ [Run_integrationTest (Some e)])
                 \<and> (\<forall>e. integrationTest ht = None
                        \<and> mock_Verify env ms (ht @ [Run_integrationTest None]) = Some e
                      \<longrightarrow> res = Returned (Some e) \<and> p' = p1
                        \<and> tr' = ht @ [Run_integrationTest None, Mock_Verify ms (Some e)])
                 \<and> (\<forall>r. integrationTest ht = None
                        \<and> mock_Verify env ms (ht @ [Run_integrationTest None]) = None
                        \<and> mock_DeleteInteractions env ms
                            (ht @ [Run_integrationTest None, Mock_Verify ms None]) = r
                      \<longrightarrow> res = Returned r \<and> p' = p1\<lparr>Interactions := []\<rparr>
                        \<and> tr' = ht @ [Run_integrationTest None, Mock_Verify ms None,
                                      Mock_DeleteInteractions ms r])))"
  proof (intro allI impI, elim conjE, rule conjI)
    fix server ms h
    assume c: "Server p1 = Some server" "ms = mockServiceFor p1 server" "h = h1 @ [?log]"
    show "\<forall>pre x post e.
               Interactions p1 = pre @ x # post
               \<and> (\<forall>k<length pre.
                      mock_AddInteraction env ms (pre ! k) (h @ registered ms (take k pre)) = None)
               \<and> mock_AddInteraction env ms x (h @ registered ms pre) = Some e
             \<longrightarrow> res = Returned (Some e) \<and> p' = p1
                 \<and> tr' = h @ registered ms pre @ [Mock_AddInteraction ms x (Some e)]"
    proof (intro allI impI, elim conjE)
      fix pre x post e
      assume "Interactions p1 = pre @ x # post"
        "\<forall>k<length pre.
            mock_AddInteraction env ms (pre ! k) (h @ registered ms (take k pre)) = None"
        "mock_AddInteraction env ms x (h @ registered ms pre) = Some e"
      with c show "res = Returned (Some e) \<and> p' = p1
                 \<and> tr' = h @ registered ms pre @ [Mock_AddInteraction ms x (Some e)]"
        by (rule A)
    qed
    show "(\<forall>k<length (Interactions p1).
                 mock_AddInteraction env ms (Interactions p1 ! k)
                   (h @ registered ms (take k (Interactions p1))) = None)
             \<longrightarrow> (\<forall>ht. ht = h @ registered ms (Interactions p1) \<longrightarrow>
                   (\<forall>e. integrationTest ht = Some e
                      \<longrightarrow> res = Returned (Some e) \<and> p' = p1
                        \<and> tr' = ht @ [Run_integrationTest (Some e)])
                 \<and> (\<forall>e. integrationTest ht = None
                        \<and> mock_Verify env ms (ht @ [Run_integrationTest None]) = Some e
                      \<longrightarrow> res = Returned (Some e) \<and> p' = p1
                        \<and> tr' = ht @ [Run_integrationTest None, Mock_Verify ms (Some e)])
                 \<and> (\<forall>r. integrationTest ht = None
                        \<and> mock_Verify env ms (ht @ [Run_integrationTest None]) = None
                        \<and> mock_DeleteInteractions env ms
                            (ht @ [Run_integrationTest None, Mock_Verify ms None]) = r
                      \<longrightarrow> res = Returned r \<and> p' = p1\<lparr>Interactions := []\<rparr>
                        \<and> tr' = ht @ [Run_integrationTest None, Mock_Verify ms None,
                                      Mock_DeleteInteractions ms r]))"
    proof (intro allI impI)
      fix ht
      assume "\<forall>k<length (Interactions p1).
                 mock_AddInteraction env ms (Interactions p1 ! k)
                   (h @ registered ms (take k (Interactions p1))) = None"
        "ht = h @ registered ms (Interactions p1)"
      with c show "(\<forall>e. integrationTest ht = Some e
                      \<longrightarrow> res = Returned (Some e) \<and> p' = p1
                        \<and> tr' = ht @ [Run_integrationTest (Some e)])
                 \<and> (\<forall>e. integrationTest ht = None
                        \<and> mock_Verify env ms (ht @ [Run_integrationTest None]) = Some e
                      \<longrightarrow> res = Returned (Some e) \<and> p' = p1
                        \<and> tr' = ht @ [Run_integrationTest None, Mock_Verify ms (Some e)])
                 \<and> (\<forall>r. integrationTest ht = None
                        \<and> mock_Verify env ms (ht @ [Run_integrationTest None]) = None
                        \<and> mock_DeleteInteractions env ms
                            (ht @ [Run_integrationTest None, Mock_Verify ms None]) = r
                      \<longrightarrow> res = Returned r \<and> p' = p1\<lparr>Interactions := []\<rparr>
                        \<and> tr' = ht @ [Run_integrationTest None, Mock_Verify ms None,
                                      Mock_DeleteInteractions ms r])"
        by (rule B)
    qed
  qed
  from Verify_events [OF run] obtain new where ev: "tr' = tr @ new
         \<and> (\<forall>m i e. Mock_AddInteraction m i (Some e) \<in> set new
               \<longrightarrow> res = Returned (Some e) \<and> (\<forall>r. Run_integrationTest r \<notin> set new))
         \<and> (\<forall>e. Run_integrationTest (Some e) \<in> set new
               \<longrightarrow> res = Returned (Some e) \<and> (\<forall>m r. Mock_Verify m r \<notin> set new))
         \<and> ((\<exists>m. Mock_Verify m None \<in> set new)
               \<longrightarrow> Interactions p' = []
                 \<and> (\<exists>m r pre. new = pre @ [Mock_Verify m None, Mock_DeleteInteractions m r]
                       \<and> res = Returned r))
         \<and> ((\<forall>m. Mock_Verify m None \<notin> set new)
               \<longrightarrow> Interactions p' = Interactions p
                 \<and> (\<forall>m r. Mock_DeleteInteractions m r \<notin> set new))"
    and ok: "res = Returned None \<longrightarrow> Interactions p' = []"
    by (elim exE conjE) (rule that, intro conjI)
  from ev have events: "\<exists>new. tr' = tr @ new
         \<and> (\<forall>m i e. Mock_AddInteraction m i (Some e) \<in> set new
               \<longrightarrow> res = Returned (Some e) \<and> (\<forall>r. Run_integrationTest r \<notin> set new))
         \<and> (\<forall>e. Run_integrationTest (Some e) \<in> set new
               \<longrightarrow> res = Returned (Some e) \<and> (\<forall>m r. Mock_Verify m r \<notin> set new))
         \<and> ((\<exists>m. Mock_Verify m None \<in> set new)
               \<longrightarrow> Interactions p' = []
                 \<and> (\<exists>m r pre. new = pre @ [Mock_Verify m None, Mock_DeleteInteractions m r]
                       \<and> res = Returned r))
         \<and> ((\<forall>m. Mock_Verify m None \<notin> set new)
               \<longrightarrow> Interactions p' = Interactions p
                 \<and> (\<forall>m r. Mock_DeleteInteractions m r \<notin> set new))"
    by (rule exI [of _ new])
  show ?thesis
    apply (rule conjI, rule i1)
    apply (rule conjI, rule nil)
    apply (rule conjI, rule main)
    apply (rule conjI, rule ok)
    apply (rule events)
    done
qed

text \<open>
  Five sessions with one interaction, whose mock service starts on the port 8080. When
  every step succeeds \<open>Verify\<close> returns no error, the list is empty and the run ends with
  the test function, the verification and the deletion. When the mock service's
  verification fails, its error is returned, the list keeps its interaction and no
  deletion is requested. When the deletion fails, its error is returned and the list is
  empty all the same. When the registration fails, the run ends there and its error is
  returned; when the test function fails, the run ends there and its error is returned.
\<close>

theorem Verify_sequence_witness:
  "fst (Verify (scriptedSession (8080, None) (\<lambda>i. None) None None) (\<lambda>tr. None) samplePact [])
     = Returned None
   \<and> Interactions (fst (snd (Verify (scriptedSession (8080, None) (\<lambda>i. None) None None)
        (\<lambda>tr. None) samplePact []))) = []
   \<and> (\<exists>h. snd (snd (Verify (scriptedSession (8080, None) (\<lambda>i. None) None None)
              (\<lambda>tr. None) samplePact []))
          = h @ [Run_integrationTest None,
                 Mock_Verify
                   \<lparr>BaseURL = ''http://localhost:8080'', MockService.Consumer = ''billy'',
                    MockService.Provider = ''bobby'', MockService.PactFileWriteMode = ''''\<rparr> None,
                 Mock_DeleteInteractions
                   \<lparr>BaseURL = ''http://localhost:8080'', MockService.Consumer = ''billy'',
                    MockService.Provider = ''bobby'', MockService.PactFileWriteMode = ''''\<rparr> None])
   \<and> fst (Verify (scriptedSession (8080, None) (\<lambda>i. None) (Some (NewError ''missing requests'')) None)
        (\<lambda>tr. None) samplePact [])
     = Returned (Some (NewError ''missing requests''))
   \<and> Interactions (fst (snd (Verify
        (scriptedSession (8080, None) (\<lambda>i. None) (Some (NewError ''missing requests'')) None)
        (\<lambda>tr. None) samplePact []))) = [''a request to login'']
   \<and> (\<exists>h. snd (snd (Verify
              (scriptedSession (8080, None) (\<lambda>i. None) (Some (NewError ''missing requests'')) None)
              (\<lambda>tr. None) samplePact []))
          = h @ [Run_integrationTest None,
                 Mock_Verify
                   \<lparr>BaseURL = ''http://localhost:8080'', MockService.Consumer = ''billy'',
                    MockService.Provider = ''bobby'', MockService.PactFileWriteMode = ''''\<rparr>
                   (Some (NewError ''missing requests''))])
   \<and> fst (Verify (scriptedSession (8080, None) (\<lambda>i. None) None (Some (NewError ''delete failed'')))
        (\<lambda>tr. None) samplePact [])
     = Returned (Some (NewError ''delete failed''))
   \<and> Interactions (fst (snd (Verify
        (scriptedSession (8080, None) (\<lambda>i. None) None (Some (NewError ''delete failed'')))
        (\<lambda>tr. None) samplePact []))) = []
   \<and> (\<exists>h. snd (snd (Verify
              (scriptedSession (8080, None) (\<lambda>i. None) None (Some (NewError ''delete failed'')))
              (\<lambda>tr. None) samplePact []))
          = h @ [Run_integrationTest None,
                 Mock_Verify
                   \<lparr>BaseURL = ''http://localhost:8080'', MockService.Consumer = ''billy'',
                    MockService.Provider = ''bobby'', MockService.PactFileWriteMode = ''''\<rparr> None,
                 Mock_DeleteInteractions
                   \<lparr>BaseURL = ''http://localhost:8080'', MockService.Consumer = ''billy'',
                    MockService.Provider = ''bobby'', MockService.PactFileWriteMode = ''''\<rparr>
                   (Some (NewError ''delete failed''))])
   \<and> fst (Verify
        (scriptedSession (8080, None) (\<lambda>i. Some (NewError ''registration failed'')) None None)
        (\<lambda>tr. None) samplePact [])
     = Returned (Some (NewError ''registration failed''))
   \<and> Interactions (fst (snd (Verify
        (scriptedSession (8080, None) (\<lambda>i. Some (NewError ''registration failed'')) None None)
        (\<lambda>tr. None) samplePact []))) = [''a request to login'']
   \<and> (\<exists>h. snd (snd (Verify
              (scriptedSession (8080, None) (\<lambda>i. Some (NewError ''registration failed'')) None None)
              (\<lambda>tr. None) samplePact []))
          = h @ [Mock_AddInteraction
                   \<lparr>BaseURL = ''http://localhost:8080'', MockService.Consumer = ''billy'',
                    MockService.Provider = ''bobby'', MockService.PactFileWriteMode = ''''\<rparr>
                   ''a request to login'' (Some (NewError ''registration failed''))])
   \<and> fst (Verify (scriptedSession (8080, None) (\<lambda>i. None) None None)
        (\<lambda>tr. Some (NewError ''login failed'')) samplePact [])
     = Returned (Some (NewError ''login failed''))
   \<and> Interactions (fst (snd (Verify (scriptedSession (8080, None) (\<lambda>i. None) None None)
        (\<lambda>tr. Some (NewError ''login failed'')) samplePact []))) = [''a request to login'']
   \<and> (\<exists>h. snd (snd (Verify (scriptedSession (8080, None) (\<lambda>i. None) None None)
              (\<lambda>tr. Some (NewError ''login failed'')) samplePact []))
          = h @ [Run_integrationTest (Some (NewError ''login failed''))])"
proof -
  let ?srv = "\<lparr>Pid = 4711, MockServer.Port = 8080, Status = -1, Args = []\<rparr>"
  let ?ms = "\<lparr>BaseURL = ''http://localhost:8080'', MockService.Consumer = ''billy'',
              MockService.Provider = ''bobby'', MockService.PactFileWriteMode = ''''\<rparr>"
  let ?E1 = "scriptedSession (8080, None) (\<lambda>i. None) None None"
  let ?E2 = "scriptedSession (8080, None) (\<lambda>i. None) (Some (NewError ''missing requests'')) None"
  let ?E3 = "scriptedSession (8080, None) (\<lambda>i. None) None (Some (NewError ''delete failed''))"
  let ?E4 = "scriptedSession (8080, None) (\<lambda>i. Some (NewError ''registration failed'')) None None"
  let ?V1 = "Verify ?E1 (\<lambda>tr. None) samplePact []"
  let ?V2 = "Verify ?E2 (\<lambda>tr. None) samplePact []"
  let ?V3 = "Verify ?E3 (\<lambda>tr. None) samplePact []"
  let ?V4 = "Verify ?E4 (\<lambda>tr. None) samplePact []"
  let ?V5 = "Verify ?E1 (\<lambda>tr. Some (NewError ''login failed'')) samplePact []"
  let ?S1 = "Setup ?E1 True samplePact []"
  let ?S2 = "Setup ?E2 True samplePact []"
  let ?S3 = "Setup ?E3 True samplePact []"
  let ?S4 = "Setup ?E4 True samplePact []"
  have run1: "?V1 = (fst ?V1, fst (snd ?V1), snd (snd ?V1))"
    by simp
  have run2: "?V2 = (fst ?V2, fst (snd ?V2), snd (snd ?V2))"
    by simp
  have run3: "?V3 = (fst ?V3, fst (snd ?V3), snd (snd ?V3))"
    by simp
  have run4: "?V4 = (fst ?V4, fst (snd ?V4), snd (snd ?V4))"
    by simp
  have run5: "?V5 = (fst ?V5, fst (snd ?V5), snd (snd ?V5))"
    by simp
  have init1: "?S1 = (fst ?S1, snd ?S1)"
    by simp
  have init2: "?S2 = (fst ?S2, snd ?S2)"
    by simp
  have init3: "?S3 = (fst ?S3, snd ?S3)"
    by simp
  have init4: "?S4 = (fst ?S4, snd ?S4)"
    by simp
  have srv: "Server (fst (Setup (scriptedSession (8080, None) a v d) True samplePact [])) = Some ?srv"
    for a v d
    by (simp add: Setup_def setupLogging_def defaults_def findPort_def
          mockServerArgs_def scriptedSession_def samplePact_def Let_def)
  have msE: "mockServiceFor (fst (Setup (scriptedSession (8080, None) a v d) True samplePact [])) ?srv
               = ?ms"
    for a v d
    by (simp add: mockServiceFor_def Setup_def setupLogging_def defaults_def findPort_def
          mockServerArgs_def scriptedSession_def samplePact_def Let_def itoa_def digits.simps)
  have addN: "\<forall>k<n. mock_AddInteraction (scriptedSession pr (\<lambda>i. None) v d) m (xs k) (hs k) = None"
    for n pr v d m and xs :: "nat \<Rightarrow> string" and hs
    by (simp add: scriptedSession_def)
  have addF: "mock_AddInteraction (scriptedSession pr (\<lambda>i. Some e) v d) m i h = Some e"
    for pr e v d m h and i :: string
    by (simp add: scriptedSession_def)
  have verE: "mock_Verify (scriptedSession pr a v d) m h = v"
    for pr v d m h and a :: "string \<Rightarrow> error option"
    by (simp add: scriptedSession_def)
  have delE: "mock_DeleteInteractions (scriptedSession pr a v d) m h = d"
    for pr v d m h and a :: "string \<Rightarrow> error option"
    by (simp add: scriptedSession_def)
  have none: "\<forall>k<length ([] :: string list). Q k" for Q
    by simp
  note c1 = Verify_sequence [OF run1 init1]
  note c2 = Verify_sequence [OF run2 init2]
  note c3 = Verify_sequence [OF run3 init3]
  note c4 = Verify_sequence [OF run4 init4]
  note c5 = Verify_sequence [OF run5 init1]
  note m1 = c1 [THEN conjunct2, THEN conjunct2, THEN conjunct1, THEN spec, THEN spec, THEN spec,
                THEN mp,
                OF conjI [OF srv conjI [OF refl refl]], unfolded msE]
  note m2 = c2 [THEN conjunct2, THEN conjunct2, THEN conjunct1, THEN spec, THEN spec, THEN spec,
                THEN mp,
                OF conjI [OF srv conjI [OF refl refl]], unfolded msE]
  note m3 = c3 [THEN conjunct2, THEN conjunct2, THEN conjunct1, THEN spec, THEN spec, THEN spec,
                THEN mp,
                OF conjI [OF srv conjI [OF refl refl]], unfolded msE]
  note m4 = c4 [THEN conjunct2, THEN conjunct2, THEN conjunct1, THEN spec, THEN spec, THEN spec,
                THEN mp,
                OF conjI [OF srv conjI [OF refl refl]], unfolded msE]
  note m5 = c5 [THEN conjunct2, THEN conjunct2, THEN conjunct1, THEN spec, THEN spec, THEN spec,
                THEN mp,
                OF conjI [OF srv conjI [OF refl refl]], unfolded msE]
  note s1 = m1 [THEN conjunct2, THEN mp, OF addN, THEN spec, THEN mp, OF refl]
  note s2 = m2 [THEN conjunct2, THEN mp, OF addN, THEN spec, THEN mp, OF refl]
  note s3 = m3 [THEN conjunct2, THEN mp, OF addN, THEN spec, THEN mp, OF refl]
  note s5 = m5 [THEN conjunct2, THEN mp, OF addN, THEN spec, THEN mp, OF refl]
  note d1 = s1 [THEN conjunct2, THEN conjunct2, THEN spec, THEN mp,
                OF conjI [OF refl conjI [OF verE refl]], unfolded delE]
  note d2 = s2 [THEN conjunct2, THEN conjunct1, THEN spec, THEN mp, OF conjI [OF refl verE]]
  note d3 = s3 [THEN conjunct2, THEN conjunct2, THEN spec, THEN mp,
                OF conjI [OF refl conjI [OF verE refl]], unfolded delE]
  have ints4: "Interactions (fst ?S4) = [] @ ''a request to login'' # []"
    using c4 [THEN conjunct1] by (simp add: samplePact_def)
  note d4 = m4 [THEN conjunct1, THEN spec, THEN spec, THEN spec, THEN spec, THEN mp,
                OF conjI [OF ints4 conjI [OF none addF]],
                unfolded registered_def list.map append_Nil]
  note d5 = s5 [THEN conjunct1, THEN spec, THEN mp, OF refl]
  have r1: "fst ?V1 = Returned None"
    by (rule d1 [THEN conjunct1])
  have i1: "Interactions (fst (snd ?V1)) = []"
    using d1 [THEN conjunct2, THEN conjunct1] by simp
  have t1: "\<exists>h. snd (snd ?V1)
          = h @ [Run_integrationTest None, Mock_Verify ?ms None, Mock_DeleteInteractions ?ms None]"
    using d1 [THEN conjunct2, THEN conjunct2] by blast
  have r2: "fst ?V2 = Returned (Some (NewError ''missing requests''))"
    by (rule d2 [THEN conjunct1])
  have i2: "Interactions (fst (snd ?V2)) = [''a request to login'']"
    using d2 [THEN conjunct2, THEN conjunct1] c2 [THEN conjunct1] by (simp add: samplePact_def)
  have t2: "\<exists>h. snd (snd ?V2)
          = h @ [Run_integrationTest None, Mock_Verify ?ms (Some (NewError ''missing requests''))]"
    using d2 [THEN conjunct2, THEN conjunct2] by blast
  have r3: "fst ?V3 = Returned (Some (NewError ''delete failed''))"
    by (rule d3 [THEN conjunct1])
  have i3: "Interactions (fst (snd ?V3)) = []"
    using d3 [THEN conjunct2, THEN conjunct1] by simp
  have t3: "\<exists>h. snd (snd ?V3)
          = h @ [Run_integrationTest None, Mock_Verify ?ms None,
                 Mock_DeleteInteractions ?ms (Some (NewError ''delete failed''))]"
    using d3 [THEN conjunct2, THEN conjunct2] by blast
  have r4: "fst ?V4 = Returned (Some (NewError ''registration failed''))"
    by (rule d4 [THEN conjunct1])
  have i4: "Interactions (fst (snd ?V4)) = [''a request to login'']"
    using d4 [THEN conjunct2, THEN conjunct1] c4 [THEN conjunct1] by (simp add: samplePact_def)
  have t4: "\<exists>h. snd (snd ?V4)
          = h @ [Mock_AddInteraction ?ms ''a request to login''
                   (Some (NewError ''registration failed''))]"
    using d4 [THEN conjunct2, THEN conjunct2] by blast
  have r5: "fst ?V5 = Returned (Some (NewError ''login failed''))"
    by (rule d5 [THEN conjunct1])
  have i5: "Interactions (fst (snd ?V5)) = [''a request to login'']"
    using d5 [THEN conjunct2, THEN conjunct1] c5 [THEN conjunct1] by (simp add: samplePact_def)
  have t5: "\<exists>h. snd (snd ?V5) = h @ [Run_integrationTest (Some (NewError ''login failed''))]"
    using d5 [THEN conjunct2, THEN conjunct2] by blast
  show ?thesis
    by (intro conjI) (rule r1 i1 t1 r2 i2 t2 r3 i3 t3 r4 i4 t4 r5 i5 t5)+
qed

subsection \<open>Setup\<close>

text \<open>
  Claim C6. In a call of \<open>Setup\<close> on a session whose server reference is not nil, the
  reference is unchanged afterwards and \<open>StartServer\<close> is not called, whatever the
  argument; so \<open>Setup(true)\<close> on the session it leaves does the same again. A call of
  \<open>Setup\<close> that calls \<open>StartServer\<close> was made with the argument true on a session
  without a server; such a call makes exactly one call of \<open>StartServer\<close>, and no call
  of \<open>Setup\<close> makes more than one.
\<close>

theorem Setup_reuses_server:
  "\<exists>new. snd (Setup env startMockServer p tr) = tr @ new
     \<and> (Server p \<noteq> None
          \<longrightarrow> Server (fst (Setup env startMockServer p tr)) = Server p
            \<and> filter isStartServer new = [])
     \<and> (filter isStartServer new \<noteq> [] \<longrightarrow> Server p = None \<and> startMockServer)
     \<and> (Server p = None \<and> startMockServer \<longrightarrow> length (filter isStartServer new) = 1)
     \<and> length (filter isStartServer new) \<le> 1"
proof -
  from Setup_shape [of env startMockServer p tr]
  obtain p' pre port perr client args server where
    eq: "Setup env startMockServer p tr =
        (if Server p = None \<and> startMockServer then p'\<lparr>Server := server\<rparr> else p',
         tr @ pre
          @ [if AllowedMockServerPorts p \<noteq> ''''
             then Utils_FindPortInRange (AllowedMockServerPorts p) port perr
             else Utils_GetFreePort port perr]
          @ (if perr \<noteq> None
             then [Log_Print ''[ERROR] unable to find free port, mockserver will fail to start'']
             else [])
          @ (if Server p = None \<and> startMockServer
             then [Log_Print (''[DEBUG] starting mock service on port: '' @ itoa port),
                   Client_StartServer client args port server]
             else []))"
    and s: "Server p' = Server p"
    and pre: "\<forall>c\<in>set pre. \<not> isStartServer c \<and> \<not> isProbe c \<and> \<not> isVerifyStep c"
    by blast
  from pre have f: "filter isStartServer pre = []"
    by (simp add: filter_empty_conv)
  show ?thesis
    unfolding eq snd_conv fst_conv
    by (rule exI [of _ "pre
          @ [if AllowedMockServerPorts p \<noteq> ''''
             then Utils_FindPortInRange (AllowedMockServerPorts p) port perr
             else Utils_GetFreePort port perr]
          @ (if perr \<noteq> None
             then [Log_Print ''[ERROR] unable to find free port, mockserver will fail to start'']
             else [])
          @ (if Server p = None \<and> startMockServer
             then [Log_Print (''[DEBUG] starting mock service on port: '' @ itoa port),
                   Client_StartServer client args port server]
             else [])"]) (simp add: f s)
qed

text \<open>
  The theorem on two calls of \<open>Setup(true)\<close> in a row on the sample session: the first
  starts the mock service on the port 8080, and the second, on the session and the
  history the first leaves, keeps that server and makes no \<open>StartServer\<close> call.
\<close>

theorem Setup_reuses_server_witness:
  "Server (fst (Setup (scriptedSession (8080, None) (\<lambda>i. None) None None) True samplePact []))
     = Some \<lparr>Pid = 4711, MockServer.Port = 8080, Status = -1, Args = []\<rparr>
   \<and> Server (fst (Setup (scriptedSession (8080, None) (\<lambda>i. None) None None) True
        (fst (Setup (scriptedSession (8080, None) (\<lambda>i. None) None None) True samplePact []))
        (snd (Setup (scriptedSession (8080, None) (\<lambda>i. None) None None) True samplePact []))))
     = Some \<lparr>Pid = 4711, MockServer.Port = 8080, Status = -1, Args = []\<rparr>
   \<and> filter isStartServer
        (drop (length (snd (Setup (scriptedSession (8080, None) (\<lambda>i. None) None None) True samplePact [])))
          (snd (Setup (scriptedSession (8080, None) (\<lambda>i. None) None None) True
            (fst (Setup (scriptedSession (8080, None) (\<lambda>i. None) None None) True samplePact []))
            (snd (Setup (scriptedSession (8080, None) (\<lambda>i. None) None None) True samplePact [])))))
     = []"
proof -
  let ?E = "scriptedSession (8080, None) (\<lambda>i. None) None None"
  let ?S1 = "Setup ?E True samplePact []"
  have first: "Server (fst ?S1) = Some \<lparr>Pid = 4711, MockServer.Port = 8080, Status = -1, Args = []\<rparr>"
    by (simp add: Setup_def setupLogging_def defaults_def findPort_def
          mockServerArgs_def scriptedSession_def samplePact_def Let_def)
  then have "Server (fst ?S1) \<noteq> None"
    by simp
  with Setup_reuses_server [of ?E True "fst ?S1" "snd ?S1"]
  obtain new where "snd (Setup ?E True (fst ?S1) (snd ?S1)) = snd ?S1 @ new"
    "Server (fst (Setup ?E True (fst ?S1) (snd ?S1))) = Server (fst ?S1)"
    "filter isStartServer new = []"
    by blast
  with first show ?thesis
    by simp
qed



section \<open>The message-verification bridge: properties\<close>

text \<open>
  Claim C8. Take a request whose body was read without error, answered on a fresh
  response writer, and let \<open>message\<close> be the message after \<open>json.Unmarshal\<close>. If the
  description of \<open>message\<close> is not a key of the handler mapping, the status is 404 and
  no body is written. If the mapped handler returns an error, the status is 503. If the
  handler succeeds and marshalling its result fails, the status is 503. Otherwise the
  status is 200 and the body is the marshalled result.
\<close>

theorem bridgeHandler_status:
  assumes fresh: "statusCode w = None" "written w = []"
      and parsed: "json_Unmarshal env body zeroMessage = (message, uerr)"
  shows "(handlers (Description message) = None
            \<longrightarrow> statusCode (bridgeHandler env handlers (body, None) w) = Some 404
              \<and> written (bridgeHandler env handlers (body, None) w) = [])
       \<and> (\<forall>f res e. handlers (Description message) = Some f \<and> f () = (res, Some e)
            \<longrightarrow> statusCode (bridgeHandler env handlers (body, None) w) = Some 503
              \<and> written (bridgeHandler env handlers (body, None) w) = [])
       \<and> (\<forall>f res b e. handlers (Description message) = Some f \<and> f () = (res, None)
              \<and> json_Marshal env res = (b, Some e)
            \<longrightarrow> statusCode (bridgeHandler env handlers (body, None) w) = Some 503
              \<and> written (bridgeHandler env handlers (body, None) w) = [])
       \<and> (\<forall>f res b. handlers (Description message) = Some f \<and> f () = (res, None)
              \<and> json_Marshal env res = (b, None)
            \<longrightarrow> statusCode (bridgeHandler env handlers (body, None) w) = Some 200
              \<and> written (bridgeHandler env handlers (body, None) w) = b)"
  using fresh parsed
  by (simp add: bridgeHandler_def Let_def WriteHeader_def Write_def Header_Set_def
        StatusOK_def StatusNotFound_def StatusServiceUnavailable_def)

text \<open>
  The theorem on the sample bridge: the description \<open>a test message\<close> is mapped, and
  the answer is 200 with the handler's result; with an empty mapping the answer is 404
  without a body.
\<close>

theorem bridgeHandler_status_witness:
  "json_Unmarshal sampleJson ''{}'' zeroMessage = (\<lparr>Description = ''a test message''\<rparr>, None)
   \<and> statusCode (bridgeHandler sampleJson sampleHandlers (''{}'', None) newResponseWriter) = Some 200
   \<and> written (bridgeHandler sampleJson sampleHandlers (''{}'', None) newResponseWriter) = ''{content}''
   \<and> statusCode (bridgeHandler sampleJson Map.empty (''{}'', None) newResponseWriter) = Some 404
   \<and> written (bridgeHandler sampleJson Map.empty (''{}'', None) newResponseWriter) = []"
proof -
  have fresh: "statusCode newResponseWriter = None" "written newResponseWriter = []"
    by (simp_all add: newResponseWriter_def)
  have parsed: "json_Unmarshal sampleJson ''{}'' zeroMessage = (\<lparr>Description = ''a test message''\<rparr>, None)"
    by (simp add: json_Unmarshal_def sampleJson_def zeroMessage_def)
  have h: "sampleHandlers (Description \<lparr>Description = ''a test message''\<rparr>)
             = Some (\<lambda>u. (''{content}'', None))"
    by (simp add: sampleHandlers_def)
  have m: "json_Marshal sampleJson ''{content}'' = (''{content}'', None)"
    by (simp add: sampleJson_def)
  from bridgeHandler_status [OF fresh parsed, of sampleHandlers] h m
  have a: "statusCode (bridgeHandler sampleJson sampleHandlers (''{}'', None) newResponseWriter) = Some 200
     \<and> written (bridgeHandler sampleJson sampleHandlers (''{}'', None) newResponseWriter) = ''{content}''"
    by blast
  from bridgeHandler_status [OF fresh parsed, of Map.empty]
  have b: "statusCode (bridgeHandler sampleJson Map.empty (''{}'', None) newResponseWriter) = Some 404
     \<and> written (bridgeHandler sampleJson Map.empty (''{}'', None) newResponseWriter) = []"
    by simp
  from parsed a b show ?thesis
    by blast
qed

text \<open>
  Claim C9. Take a request whose body was read without error and is not valid JSON,
  answered on a fresh response writer. The error of \<open>json.Unmarshal\<close> is dropped and the
  message stays the zero message, so the answer is the answer to any request whose body
  decodes to the empty description: 404 when no handler is mapped to the empty string.
  The status is never 400; for any request the status is 400 exactly when reading the
  body failed.
\<close>

theorem bridgeHandler_invalid_json:
  assumes fresh: "statusCode w = None" "written w = []"
      and invalid: "json_checkValid env body = Some e"
  shows "json_Unmarshal env body zeroMessage = (zeroMessage, Some e)
       \<and> (\<forall>body' m u. json_Unmarshal env body' zeroMessage = (m, u) \<and> Description m = ''''
            \<longrightarrow> bridgeHandler env handlers (body, None) w = bridgeHandler env handlers (body', None) w)
       \<and> (handlers '''' = None
            \<longrightarrow> statusCode (bridgeHandler env handlers (body, None) w) = Some 404
              \<and> written (bridgeHandler env handlers (body, None) w) = [])
       \<and> statusCode (bridgeHandler env handlers (body, None) w) \<noteq> Some 400
       \<and> (\<forall>read. statusCode (bridgeHandler env handlers read w) = Some 400 \<longleftrightarrow> snd read \<noteq> None)"
proof -
  have u: "json_Unmarshal env body zeroMessage = (zeroMessage, Some e)"
    using invalid by (simp add: json_Unmarshal_def)
  have same: "bridgeHandler env handlers (body, None) w = bridgeHandler env handlers (body', None) w"
    if "json_Unmarshal env body' zeroMessage = (m, u)" "Description m = ''''" for body' m u
    using that u by (simp add: bridgeHandler_def Let_def zeroMessage_def)
  have nf: "statusCode (bridgeHandler env handlers (body, None) w) = Some 404
              \<and> written (bridgeHandler env handlers (body, None) w) = []"
    if "handlers '''' = None"
    using that u fresh
    by (simp add: bridgeHandler_def Let_def zeroMessage_def WriteHeader_def Header_Set_def
          StatusNotFound_def)
  have bad: "statusCode (bridgeHandler env handlers read w) = Some 400 \<longleftrightarrow> snd read \<noteq> None" for read
    using fresh
    by (cases read)
       (simp add: bridgeHandler_def Let_def WriteHeader_def Write_def Header_Set_def
          StatusOK_def StatusBadRequest_def StatusNotFound_def StatusServiceUnavailable_def
          split: prod.splits option.splits)
  from bad [of "(body, None)"] have "statusCode (bridgeHandler env handlers (body, None) w) \<noteq> Some 400"
    by simp
  with u same nf bad show ?thesis
    by blast
qed

text \<open>
  The theorem on the sample bridge and the body \<open>boom\<close>: the answer is 404, as no
  sample handler is mapped to the empty string.
\<close>

theorem bridgeHandler_invalid_json_witness:
  "json_checkValid sampleJson ''boom'' = Some (NewError ''invalid character'')
   \<and> sampleHandlers '''' = None
   \<and> statusCode (bridgeHandler sampleJson sampleHandlers (''boom'', None) newResponseWriter) = Some 404
   \<and> written (bridgeHandler sampleJson sampleHandlers (''boom'', None) newResponseWriter) = []
   \<and> statusCode (bridgeHandler sampleJson sampleHandlers
        (''{'', Some (NewError ''unexpected EOF'')) newResponseWriter) = Some 400"
proof -
  have fresh: "statusCode newResponseWriter = None" "written newResponseWriter = []"
    by (simp_all add: newResponseWriter_def)
  have invalid: "json_checkValid sampleJson ''boom'' = Some (NewError ''invalid character'')"
    by (simp add: sampleJson_def)
  have h: "sampleHandlers '''' = None"
    by (simp add: sampleHandlers_def)
  from bridgeHandler_invalid_json [OF fresh invalid, of sampleHandlers] h
  have "statusCode (bridgeHandler sampleJson sampleHandlers (''boom'', None) newResponseWriter) = Some 404
      \<and> written (bridgeHandler sampleJson sampleHandlers (''boom'', None) newResponseWriter) = []
      \<and> (statusCode (bridgeHandler sampleJson sampleHandlers
            (''{'', Some (NewError ''unexpected EOF'')) newResponseWriter) = Some 400
          \<longleftrightarrow> snd (''{'', Some (NewError ''unexpected EOF'')) \<noteq> None)"
    by blast
  with invalid h show ?thesis
    by simp
qed


end
